theory Spec2Isabelle
  imports Complex_Main
begin

section \<open>Python values and the two coercions the normalizer uses\<close>

text \<open>
  The raw records of \<^verbatim>\<open>analytics-worker/worker.py\<close> are Python dictionaries
  \<^verbatim>\<open>Dict[str, Any]\<close>. A dictionary is an association list in insertion order;
  \<^verbatim>\<open>PObj\<close> stands for any other object (a \<^verbatim>\<open>datetime\<close>, an
  \<^verbatim>\<open>ObjectId\<close>), which neither \<^verbatim>\<open>int()\<close> nor \<^verbatim>\<open>float()\<close>
  accepts and which has no length. Integers are unbounded, as in Python. A float is
  modelled as a real number: rounding, NaN and the infinities are outside the model, and so
  is the range of a 64-bit column of the data-frame library.
\<close>

datatype pyval =
    PNone
  | PBool bool
  | PInt int
  | PFloat real
  | PStr string
  | PList "pyval list"
  | PDict "(string \<times> pyval) list"
  | PObj string

type_synonym pydict = "(string \<times> pyval) list"

datatype error = TypeError | ValueError | OverflowError | KeyError | RuntimeError

text \<open>
  How Python parses a string as a number is the interpreter's business, not this
  repository's: the two parsers are parameters of the model.
\<close>

record builtins =
  str_to_float :: "string \<Rightarrow> real option"
  str_to_int :: "string \<Rightarrow> int option"

text \<open>
  \<^verbatim>\<open>float(value)\<close>: raises TypeError or ValueError where Python does, and
  OverflowError for an integer that rounds beyond the largest double, that is, of
  magnitude at least \<open>2^1024 - 2^970\<close>.
\<close>

fun py_float :: "builtins \<Rightarrow> pyval \<Rightarrow> error + real" where
  "py_float B PNone = Inl TypeError"
| "py_float B (PBool b) = Inr (if b then 1 else 0)"
| "py_float B (PInt i) =
     (if \<bar>i\<bar> < 2 ^ 1024 - 2 ^ 970 then Inr (of_int i) else Inl OverflowError)"
| "py_float B (PFloat r) = Inr r"
| "py_float B (PStr s) =
     (case str_to_float B s of None \<Rightarrow> Inl ValueError | Some r \<Rightarrow> Inr r)"
| "py_float B (PList xs) = Inl TypeError"
| "py_float B (PDict d) = Inl TypeError"
| "py_float B (PObj n) = Inl TypeError"

text \<open>\<^verbatim>\<open>int(value)\<close>: a float is truncated towards zero.\<close>

fun py_int :: "builtins \<Rightarrow> pyval \<Rightarrow> error + int" where
  "py_int B PNone = Inl TypeError"
| "py_int B (PBool b) = Inr (if b then 1 else 0)"
| "py_int B (PInt i) = Inr i"
| "py_int B (PFloat r) = Inr (if 0 \<le> r then \<lfloor>r\<rfloor> else \<lceil>r\<rceil>)"
| "py_int B (PStr s) =
     (case str_to_int B s of None \<Rightarrow> Inl ValueError | Some i \<Rightarrow> Inr i)"
| "py_int B (PList xs) = Inl TypeError"
| "py_int B (PDict d) = Inl TypeError"
| "py_int B (PObj n) = Inl TypeError"

text \<open>\<^verbatim>\<open>d.get(k, default)\<close>\<close>

definition dict_get :: "pydict \<Rightarrow> string \<Rightarrow> pyval \<Rightarrow> pyval" where
  "dict_get d k dflt = (case map_of d k of None \<Rightarrow> dflt | Some v \<Rightarrow> v)"

section \<open>The sample normalizer: \<^verbatim>\<open>to_long_form\<close>\<close>

datatype sample = Sample (ts: int) (pid: string) (val: real)

text \<open>
  The timestamp of a wide record:
  \<^verbatim>\<open>
  ts = int(record.get("timestamp", {}).get("$date", 0))
         if isinstance(record.get("timestamp"), dict)
         else int(record.get("timestamp", 0))
  \<close>
  No \<^verbatim>\<open>try\<close> surrounds it: an exception of \<^verbatim>\<open>int()\<close> leaves the function.
\<close>

definition record_ts :: "builtins \<Rightarrow> pydict \<Rightarrow> error + int" where
  "record_ts B r =
     (case map_of r ''timestamp'' of
        Some (PDict d) \<Rightarrow> py_int B (dict_get d ''$date'' (PInt 0))
      | _ \<Rightarrow> py_int B (dict_get r ''timestamp'' (PInt 0)))"

text \<open>
  The inner loop over \<^verbatim>\<open>record.items()\<close>:
  \<^verbatim>\<open>
  if key in ("timestamp", "sessionId", "_id"): continue
  if value is None: continue
  try:
      float_val = float(value)
      long_rows.append({"ts": ts, "pid": key, "value": float_val})
  except (ValueError, TypeError):
      continue
  \<close>
  The handler names two exceptions: any other one leaves the function.
\<close>

definition reserved_keys :: "string list" where
  "reserved_keys = [''timestamp'', ''sessionId'', ''_id'']"

fun field_rows :: "builtins \<Rightarrow> int \<Rightarrow> pydict \<Rightarrow> error + sample list" where
  "field_rows B t [] = Inr []"
| "field_rows B t ((key, v) # kvs) =
     (if key \<in> set reserved_keys then field_rows B t kvs
      else if v = PNone then field_rows B t kvs
      else (case py_float B v of
              Inr float_val \<Rightarrow>
                (case field_rows B t kvs of
                   Inl e \<Rightarrow> Inl e
                 | Inr rows \<Rightarrow> Inr (Sample t key float_val # rows))
            | Inl e \<Rightarrow>
                if e = ValueError \<or> e = TypeError then field_rows B t kvs else Inl e))"

text \<open>The outer loop: \<^verbatim>\<open>if not ts: continue\<close> skips a record whose timestamp is 0.\<close>

fun long_rows :: "builtins \<Rightarrow> pydict list \<Rightarrow> error + sample list" where
  "long_rows B [] = Inr []"
| "long_rows B (r # rs) =
     (case record_ts B r of
        Inl e \<Rightarrow> Inl e
      | Inr t \<Rightarrow>
          (if t = 0 then long_rows B rs
           else (case field_rows B t r of
                   Inl e \<Rightarrow> Inl e
                 | Inr new_rows \<Rightarrow>
                     (case long_rows B rs of
                        Inl e \<Rightarrow> Inl e
                      | Inr rows \<Rightarrow> Inr (new_rows @ rows)))))"

text \<open>
  The fast path hands the records to the data-frame library when the first record has the
  keys \<^verbatim>\<open>ts\<close>, \<^verbatim>\<open>pid\<close> and \<^verbatim>\<open>value\<close>; what the library's constructor and
  casts make of them is the parameter \<open>cast\<close>.
\<close>

definition is_long_form :: "pydict \<Rightarrow> bool" where
  "is_long_form smp = list_all (\<lambda>k. k \<in> fst ` set smp) [''ts'', ''pid'', ''value'']"

definition to_long_form ::
  "builtins \<Rightarrow> (pydict list \<Rightarrow> error + sample list) \<Rightarrow> pydict list \<Rightarrow> error + sample list" where
  "to_long_form B cast records =
     (case records of
        [] \<Rightarrow> Inr []
      | smp # _ \<Rightarrow> if is_long_form smp then cast records else long_rows B records)"

text \<open>
  A concrete pair of parsers for evaluating the model: it reads non-empty strings of decimal
  digits, on which it agrees with Python, and rejects everything else. It is used only at
  inputs whose strings are digit strings or strings that Python rejects as well.
\<close>

fun digits_val :: "nat \<Rightarrow> string \<Rightarrow> nat option" where
  "digits_val acc [] = Some acc"
| "digits_val acc (c # cs) =
     (let d = (of_char c :: nat) in
      if 48 \<le> d \<and> d \<le> 57 then digits_val (10 * acc + (d - 48)) cs else None)"

definition digits_only :: builtins where
  "digits_only =
     \<lparr>str_to_float = (\<lambda>s. if s = [] then None else map_option of_nat (digits_val 0 s)),
      str_to_int = (\<lambda>s. if s = [] then None else map_option of_nat (digits_val 0 s))\<rparr>"

text \<open>A stand-in for the library's fast path, for evaluating inputs that do not take it.\<close>

definition no_fast_path :: "pydict list \<Rightarrow> error + sample list" where
  "no_fast_path records = Inl RuntimeError"

section \<open>The pivot and the 1 Hz downsample of \<^verbatim>\<open>build_pack\<close>\<close>

text \<open>
  A wide table has the index column \<^verbatim>\<open>ts\<close> and one column per signal; a cell is a
  float or null. A row holds its cells as a function of the column name, and the table
  lists its signal columns. Signals named like the index column \<^verbatim>\<open>ts\<close> are outside the
  model.
\<close>

datatype wrow = WRow (rts: int) (cells: "string \<Rightarrow> real option")

datatype wide = Wide (columns: "string list") (wrows: "wrow list")

definition column :: "wide \<Rightarrow> string \<Rightarrow> real option list" where
  "column w p = map (\<lambda>r. cells r p) (wrows w)"

fun non_null :: "'a option list \<Rightarrow> 'a list" where
  "non_null [] = []"
| "non_null (None # xs) = non_null xs"
| "non_null (Some v # xs) = v # non_null xs"

text \<open>
  The mean of no values is null, as the library's aggregate has it. The mean is the exact
  one, sum over count in real arithmetic: the library computes it in Float64, where the
  sum depends on the order of the additions, so nothing about the order of summation is
  derived from this definition.
\<close>

definition mean_vals :: "real list \<Rightarrow> real option" where
  "mean_vals vs = (if vs = [] then None else Some (sum_list vs / real (length vs)))"

definition col_mean :: "real option list \<Rightarrow> real option" where
  "col_mean col = mean_vals (non_null col)"

text \<open>Distinct elements in order of first appearance.\<close>

definition first_seen :: "'a list \<Rightarrow> 'a list" where
  "first_seen xs = rev (remdups (rev xs))"

text \<open>
  \<^verbatim>\<open>df_long.pivot(index="ts", columns="pid", values="value",
  aggregate_function="mean").sort("ts")\<close>: one row per distinct timestamp, one column per
  distinct signal, each cell the mean of the values of the samples with that timestamp
  and signal, null when there is none.
\<close>

definition pivot_cell :: "sample list \<Rightarrow> int \<Rightarrow> string \<Rightarrow> real option" where
  "pivot_cell samples t p =
     mean_vals (map val (filter (\<lambda>s. ts s = t \<and> pid s = p) samples))"

definition pivot :: "sample list \<Rightarrow> wide" where
  "pivot samples =
     Wide (first_seen (map pid samples))
          (sort_key rts (map (\<lambda>t. WRow t (pivot_cell samples t)) (first_seen (map ts samples))))"

text \<open>
  The downsample, step by step as the code chains it:
  \<^verbatim>\<open>
  wide.with_columns((pl.col("ts") // 1000).alias("sec"))
      .group_by("sec").mean()
      .with_columns((pl.col("sec") * 1000).alias("ts"))
      .drop("sec")
      .sort("ts")
  \<close>
  \<open>group_by("sec").mean()\<close> averages every column of a group, the \<^verbatim>\<open>ts\<close> column
  too; the next step then overwrites \<^verbatim>\<open>ts\<close> with \<open>sec * 1000\<close>. A signal column named
  \<^verbatim>\<open>sec\<close> is replaced by the alias and leaves with the drop.
\<close>

definition sec :: "wrow \<Rightarrow> int" where
  "sec r = rts r div 1000"

datatype grouped = Grouped (gsec: int) (gts: "real option") (gcells: "string \<Rightarrow> real option")

definition group_by_sec_mean :: "wrow list \<Rightarrow> grouped list" where
  "group_by_sec_mean rows =
     map (\<lambda>s. let g = filter (\<lambda>r. sec r = s) rows
               in Grouped s (mean_vals (map (\<lambda>r. real_of_int (rts r)) g))
                            (\<lambda>p. col_mean (map (\<lambda>r. cells r p) g)))
         (first_seen (map sec rows))"

definition with_ts_from_sec :: "grouped \<Rightarrow> wrow" where
  "with_ts_from_sec g = WRow (gsec g * 1000) (gcells g)"

definition downsample :: "wide \<Rightarrow> wide" where
  "downsample w =
     (if length (wrows w) > 0
      then Wide (removeAll ''sec'' (columns w))
                (sort_key rts (map with_ts_from_sec (group_by_sec_mean (wrows w))))
      else w)"

text \<open>The spec's example scenario.\<close>

definition example_samples :: "sample list" where
  "example_samples = [Sample 1000 ''rpm'' 800, Sample 1000 ''rpm'' 900, Sample 1999 ''rpm'' 5000]"

section \<open>The KPI summary of \<^verbatim>\<open>build_pack\<close>\<close>

text \<open>
  The summary is a Python dictionary built by assignments to fresh keys: an association
  list in insertion order. \<^verbatim>\<open>float(None)\<close> raises TypeError, which no handler in
  \<^verbatim>\<open>build_pack\<close> catches, so every entry is a computation that may fail.
\<close>

datatype kval = KInt int | KFloat real | KNull | KNames "string list" | KPy pyval

type_synonym kpis = "(string \<times> kval) list"

definition float_of :: "real option \<Rightarrow> error + kval" where
  "float_of x = (case x of None \<Rightarrow> Inl TypeError | Some v \<Rightarrow> Inr (KFloat v))"

text \<open>\<^verbatim>\<open>float(x) if col.len() > 0 else None\<close>\<close>

definition guarded :: "real option list \<Rightarrow> real option \<Rightarrow> error + kval" where
  "guarded col x = (if length col > 0 then float_of x else Inr KNull)"

fun max_of :: "'a::linorder list \<Rightarrow> 'a option" where
  "max_of [] = None"
| "max_of (x # xs) = Some (fold max xs x)"

fun min_of :: "'a::linorder list \<Rightarrow> 'a option" where
  "min_of [] = None"
| "min_of (x # xs) = Some (fold min xs x)"

text \<open>The column aggregates skip nulls and are null when nothing is left.\<close>

definition col_max :: "real option list \<Rightarrow> real option" where
  "col_max col = max_of (non_null col)"

definition col_min :: "real option list \<Rightarrow> real option" where
  "col_min col = min_of (non_null col)"

text \<open>
  \<^verbatim>\<open>idle_mask = (rpm_col < 900)\<close> is null where the cell is null;
  \<^verbatim>\<open>idle_mask.any()\<close> ignores nulls; \<^verbatim>\<open>rpm_col.filter(idle_mask)\<close> keeps the cells
  whose mask is true.
\<close>

definition lt_900 :: "real option list \<Rightarrow> bool option list" where
  "lt_900 col = map (map_option (\<lambda>v. v < 900)) col"

definition mask_any :: "bool option list \<Rightarrow> bool" where
  "mask_any msk = (Some True \<in> set msk)"

definition col_filter :: "real option list \<Rightarrow> bool option list \<Rightarrow> real option list" where
  "col_filter col msk = map fst (filter (\<lambda>vm. snd vm = Some True) (zip col msk))"

definition sub_opt :: "real option \<Rightarrow> real option \<Rightarrow> real option" where
  "sub_opt a b = (case a of None \<Rightarrow> None
                  | Some x \<Rightarrow> (case b of None \<Rightarrow> None | Some y \<Rightarrow> Some (x - y)))"

type_synonym entries = "(string \<times> (error + kval)) list"

definition base_entries :: "wide \<Rightarrow> entries" where
  "base_entries w =
     (let tss = map rts (wrows w);
          start_ts = (case min_of tss of None \<Rightarrow> 0 | Some m \<Rightarrow> m);
          end_ts = (case max_of tss of None \<Rightarrow> 0 | Some m \<Rightarrow> m)
      in [(''rows'', Inr (KInt (int (length (wrows w))))),
          (''start'', Inr (KInt start_ts)),
          (''end'', Inr (KInt end_ts)),
          (''signals'', Inr (KNames (columns w))),
          (''duration_seconds'', Inr (KInt ((end_ts - start_ts) div 1000)))])"

text \<open>
  The standard deviation is the data-frame library's: the parameter \<open>std\<close>, which may be
  null (then \<^verbatim>\<open>float()\<close> raises).
\<close>

definition rpm_entries :: "(real option list \<Rightarrow> real option) \<Rightarrow> wide \<Rightarrow> entries" where
  "rpm_entries std w =
     (if ''rpm'' \<in> set (columns w)
      then (let rpm_col = column w ''rpm''; idle_mask = lt_900 rpm_col
            in [(''rpm_mean'', guarded rpm_col (col_mean rpm_col)),
                (''rpm_max'', guarded rpm_col (col_max rpm_col)),
                (''rpm_min'', guarded rpm_col (col_min rpm_col))]
               @ (if mask_any idle_mask
                  then [(''idleRPMStd'', float_of (std (col_filter rpm_col idle_mask))),
                        (''idleRPMMean'', float_of (col_mean (col_filter rpm_col idle_mask)))]
                  else []))
      else [])"

definition temp_entries :: "wide \<Rightarrow> entries" where
  "temp_entries w =
     (if ''engineTemp'' \<in> set (columns w)
      then (let temp_col = column w ''engineTemp''
            in [(''coolantRiseC'', guarded temp_col (sub_opt (col_max temp_col) (col_min temp_col))),
                (''coolantMax'', guarded temp_col (col_max temp_col)),
                (''coolantMin'', guarded temp_col (col_min temp_col))])
      else [])"

definition speed_entries :: "wide \<Rightarrow> entries" where
  "speed_entries w =
     (if ''speed'' \<in> set (columns w)
      then (let speed_col = column w ''speed''
            in [(''speed_mean'', guarded speed_col (col_mean speed_col)),
                (''speed_max'', guarded speed_col (col_max speed_col))])
      else [])"

definition fuel_entries :: "wide \<Rightarrow> entries" where
  "fuel_entries w =
     (if ''shortTermFuelTrim'' \<in> set (columns w)
      then (let stft = column w ''shortTermFuelTrim''
            in [(''stft_mean'', guarded stft (col_mean stft)),
                (''stft_max'', guarded stft (col_max stft))])
      else [])
     @ (if ''longTermFuelTrim'' \<in> set (columns w)
        then (let ltft = column w ''longTermFuelTrim''
              in [(''ltft_mean'', guarded ltft (col_mean ltft)),
                  (''ltft_max'', guarded ltft (col_max ltft))])
        else [])"

text \<open>The session metadata is merged when the lookup returned a non-empty document.\<close>

definition meta_entries :: "pydict \<Rightarrow> entries" where
  "meta_entries session_meta =
     (if session_meta \<noteq> []
      then [(''sessionName'', Inr (KPy (dict_get session_meta ''sessionName'' (PStr [])))),
            (''dtcCodes'', Inr (KPy (dict_get session_meta ''dtcCodes'' (PList [])))),
            (''vehicleId'', Inr (KPy (dict_get session_meta ''vehicleId'' (PStr []))))]
      else [])"

text \<open>The assignments run in order; the first exception ends the build.\<close>

fun collect :: "entries \<Rightarrow> error + kpis" where
  "collect [] = Inr []"
| "collect ((key, Inl e) # rest) = Inl e"
| "collect ((key, Inr v) # rest) =
     (case collect rest of Inl e \<Rightarrow> Inl e | Inr kvs \<Rightarrow> Inr ((key, v) # kvs))"

definition summarize ::
  "(real option list \<Rightarrow> real option) \<Rightarrow> wide \<Rightarrow> pydict \<Rightarrow> error + kpis" where
  "summarize std w session_meta =
     collect (base_entries w @ rpm_entries std w @ temp_entries w @ speed_entries w
              @ fuel_entries w @ meta_entries session_meta)"

text \<open>
  \<^verbatim>\<open>build_pack\<close> up to the summary: no raw records, or no sample left after the
  conversion, raise RuntimeError.
\<close>

definition build_pack ::
  "builtins \<Rightarrow> (pydict list \<Rightarrow> error + sample list) \<Rightarrow> (real option list \<Rightarrow> real option)
     \<Rightarrow> pydict list \<Rightarrow> pydict \<Rightarrow> error + (wide \<times> kpis)" where
  "build_pack B cast std raw session_meta =
     (if raw = [] then Inl RuntimeError
      else (case to_long_form B cast raw of
              Inl e \<Rightarrow> Inl e
            | Inr df_long \<Rightarrow>
                if df_long = [] then Inl RuntimeError
                else (let w = downsample (pivot df_long)
                      in (case summarize std w session_meta of
                            Inl e \<Rightarrow> Inl e
                          | Inr kpis \<Rightarrow> Inr (w, kpis)))))"

section \<open>The job runner of \<^verbatim>\<open>robust_server.py\<close>: extracting the final response\<close>

text \<open>
  When no chunk was streamed, \<^verbatim>\<open>run_research\<close> and \<^verbatim>\<open>run_analysis\<close> read the
  final text off the value the agent returned:
  \<^verbatim>\<open>
  if isinstance(responses, dict) and "response" in responses:
      response_text = responses["response"]
  elif isinstance(responses, dict) and "text" in responses:
      response_text = responses["text"]
  elif isinstance(responses, dict) and "content" in responses:
      response_text = responses["content"]
  elif isinstance(responses, list):
      response_text = "\n\n".join([str(r) for r in responses])
  else:
      response_text = str(responses)
  \<close>
  A subscript raises KeyError on a missing key; Python's \<^verbatim>\<open>str\<close> is the parameter
  \<open>str\<close>.
\<close>

definition dict_item :: "pydict \<Rightarrow> string \<Rightarrow> error + pyval" where
  "dict_item d k = (case map_of d k of None \<Rightarrow> Inl KeyError | Some v \<Rightarrow> Inr v)"

fun join :: "string \<Rightarrow> string list \<Rightarrow> string" where
  "join sep [] = []"
| "join sep [x] = x"
| "join sep (x # y # ys) = x @ sep @ join sep (y # ys)"

definition blank_line :: string where
  "blank_line = [CHR 0x0A, CHR 0x0A]"

fun extract_response :: "(pyval \<Rightarrow> string) \<Rightarrow> pyval \<Rightarrow> error + pyval" where
  "extract_response str (PDict d) =
     (if ''response'' \<in> fst ` set d then dict_item d ''response''
      else if ''text'' \<in> fst ` set d then dict_item d ''text''
      else if ''content'' \<in> fst ` set d then dict_item d ''content''
      else Inr (PStr (str (PDict d))))"
| "extract_response str (PList rs) = Inr (PStr (join blank_line (map str rs)))"
| "extract_response str responses = Inr (PStr (str responses))"

text \<open>\<^verbatim>\<open>len(x)\<close>: strings, lists and dictionaries have a length, nothing else here has.\<close>

fun py_len :: "pyval \<Rightarrow> error + nat" where
  "py_len (PStr s) = Inr (length s)"
| "py_len (PList xs) = Inr (length xs)"
| "py_len (PDict d) = Inr (length d)"
| "py_len v = Inl TypeError"

text \<open>
  The streamed chunks win when there are any. Otherwise \<^verbatim>\<open>run_research\<close> extracts
  and then, still inside the same branch, logs the length of what it extracted:
  \<^verbatim>\<open>
  logger.info(f"Extracted non-streamed content: {len(response_text)} characters")
  \<close>
\<close>

definition research_final_response ::
  "(pyval \<Rightarrow> string) \<Rightarrow> string list \<Rightarrow> pyval \<Rightarrow> error + pyval" where
  "research_final_response str full_content responses =
     (if full_content \<noteq> [] then Inr (PStr (concat full_content))
      else (case extract_response str responses of
              Inl e \<Rightarrow> Inl e
            | Inr response_text \<Rightarrow>
                (case py_len response_text of
                   Inl e \<Rightarrow> Inl e
                 | Inr n \<Rightarrow> Inr response_text)))"

text \<open>\<^verbatim>\<open>run_analysis\<close> has the same extraction without the log statement.\<close>

definition analysis_final_response ::
  "(pyval \<Rightarrow> string) \<Rightarrow> string list \<Rightarrow> pyval \<Rightarrow> error + pyval" where
  "analysis_final_response str full_content responses =
     (if full_content \<noteq> [] then Inr (PStr (concat full_content))
      else extract_response str responses)"

text \<open>A stand-in for Python's \<^verbatim>\<open>str\<close>, for evaluating inputs whose text does not matter.\<close>

definition str_stub :: "pyval \<Rightarrow> string" where
  "str_stub v = ''<value>''"

section \<open>The registries of \<^verbatim>\<open>robust_server.py\<close>\<close>

type_synonym job_id = string
type_synonym client_id = string
type_synonym task_id = nat

datatype job_status = Processing | Completed | Failed

text \<open>An entry of \<^verbatim>\<open>research_jobs\<close>.\<close>

record job =
  status :: job_status
  progress :: int
  output_file :: string
  start_time :: real
  job_client :: client_id
  streaming_enabled :: bool
  job_error :: "string option"
  end_time :: "real option"

text \<open>An entry of \<^verbatim>\<open>app.state.completed_research\<close>.\<close>

record completed_job =
  c_output_file :: string
  output_path :: string
  prompt :: string
  c_client :: client_id
  completion_time :: real
  content :: string

text \<open>
  The completed stores are Python dictionaries whose iteration order matters to
  \<^verbatim>\<open>min\<close>: association lists with distinct keys, in insertion order.
  \<^verbatim>\<open>d[k] = v\<close> replaces in place or appends; \<^verbatim>\<open>del d[k]\<close> removes the key.
\<close>

definition dict_set :: "'k \<Rightarrow> 'v \<Rightarrow> ('k \<times> 'v) list \<Rightarrow> ('k \<times> 'v) list" where
  "dict_set k v d =
     (if k \<in> fst ` set d then map (\<lambda>kv. if fst kv = k then (k, v) else kv) d
      else d @ [(k, v)])"

definition dict_del :: "'k \<Rightarrow> ('k \<times> 'v) list \<Rightarrow> ('k \<times> 'v) list" where
  "dict_del k d = filter (\<lambda>kv. fst kv \<noteq> k) d"

text \<open>\<^verbatim>\<open>min(items, key=...)\<close> returns the first of the minimal items.\<close>

fun first_min :: "('a \<Rightarrow> real) \<Rightarrow> 'a \<Rightarrow> 'a list \<Rightarrow> 'a" where
  "first_min key m [] = m"
| "first_min key m (x # xs) = first_min key (if key x < key m then x else m) xs"

text \<open>
  \<^verbatim>\<open>run_research\<close>, on success:
  \<^verbatim>\<open>
  app.state.completed_research[job_id] = {...}
  # Keep only the last 100 completed research jobs
  if len(app.state.completed_research) > 100:
      oldest_job = min(app.state.completed_research.items(),
                       key=lambda x: x[1]["completion_time"])
      del app.state.completed_research[oldest_job[0]]
  \<close>
\<close>

definition store_completed_research ::
  "job_id \<Rightarrow> completed_job \<Rightarrow> (job_id \<times> completed_job) list \<Rightarrow> (job_id \<times> completed_job) list" where
  "store_completed_research job_id entry completed_research =
     (let cr = dict_set job_id entry completed_research
      in if length cr > 100
         then (case cr of
                 [] \<Rightarrow> cr
               | x # xs \<Rightarrow> dict_del (fst (first_min (\<lambda>kv. completion_time (snd kv)) x xs)) cr)
         else cr)"

text \<open>An entry of \<^verbatim>\<open>app.state.completed_analysis\<close>, as \<^verbatim>\<open>run_analysis\<close> stores it.\<close>

record completed_analysis_job =
  output_dir :: string
  report_file :: string
  file_path :: string
  a_client :: client_id
  a_completion_time :: real
  visualizations :: "string list"
  a_content :: string

text \<open>
  \<^verbatim>\<open>run_analysis\<close>, on success, only assigns
  \<^verbatim>\<open>app.state.completed_analysis[job_id] = {...}\<close>: no length check follows.
\<close>

definition store_completed_analysis ::
  "job_id \<Rightarrow> completed_analysis_job \<Rightarrow> (job_id \<times> completed_analysis_job) list
     \<Rightarrow> (job_id \<times> completed_analysis_job) list" where
  "store_completed_analysis job_id entry completed_analysis =
     dict_set job_id entry completed_analysis"

text \<open>Job ids and entries for evaluating the stores: the \<open>n\<close>-th job completes at time \<open>n\<close>.\<close>

definition nth_job :: "nat \<Rightarrow> job_id" where
  "nth_job n = ''job_'' @ replicate n (CHR ''1'')"

definition nth_research :: "nat \<Rightarrow> completed_job" where
  "nth_research n =
     \<lparr>c_output_file = ''report.md'', output_path = ''/srv/report.md'', prompt = ''p'',
      c_client = ''A'', completion_time = real n, content = ''text''\<rparr>"

definition nth_analysis :: "nat \<Rightarrow> completed_analysis_job" where
  "nth_analysis n =
     \<lparr>output_dir = ''/tmp/output'', report_file = ''/tmp/output/analysis_report.md'',
      file_path = ''/tmp/data/f'', a_client = ''A'', a_completion_time = real n,
      visualizations = [], a_content = ''text''\<rparr>"

section \<open>The progress ticker: \<^verbatim>\<open>send_progress_updates\<close>\<close>

text \<open>
  The server runs on one event loop: a coroutine runs without interruption from one
  \<^verbatim>\<open>await\<close> to the next, so a step of the model is the code between two suspension
  points. The ticker of \<^verbatim>\<open>run_research\<close> (from 40 to 65 by 3) and the ticker of
  \<^verbatim>\<open>run_analysis\<close> (from 10 to 90 by 5) are the same code up to these constants:
  \<^verbatim>\<open>
  while research_jobs[job_id]["status"] == "processing" and current_progress < max_progress:
      await asyncio.sleep(update_interval)
      if job_id in research_jobs and research_jobs[job_id]["status"] == "processing":
          current_progress += 3
          research_jobs[job_id]["progress"] = current_progress
          if client_id in active_connections:
              client_ws = active_connections[client_id]
              if client_ws.client_state == WebSocketState.CONNECTED:
                  await client_ws.send_text(...)
      else:
          break
  \<close>
  all inside \<^verbatim>\<open>try: ... except Exception\<close>, which logs and ends the task.
\<close>

datatype websocket = WebSocket (ws_id: nat) (connected: bool)

record ticker_params =
  max_progress :: int
  increment :: int

definition research_ticker :: ticker_params where
  "research_ticker = \<lparr>max_progress = 65, increment = 3\<rparr>"

definition analysis_ticker :: ticker_params where
  "analysis_ticker = \<lparr>max_progress = 90, increment = 5\<rparr>"

text \<open>Where the ticker is suspended, and its local \<^verbatim>\<open>current_progress\<close>.\<close>

datatype ticker_pc = TStart | TSleeping | TSending | TDone

record ticker =
  pc :: ticker_pc
  current_progress :: int

text \<open>
  The loop condition: a missing job raises KeyError, which the handler turns into the end
  of the task.
\<close>

definition loop_head :: "ticker_params \<Rightarrow> (job_id \<rightharpoonup> job) \<Rightarrow> job_id \<Rightarrow> ticker \<Rightarrow> ticker" where
  "loop_head P jobs jid tk =
     (case jobs jid of
        None \<Rightarrow> tk\<lparr>pc := TDone\<rparr>
      | Some j \<Rightarrow>
          if status j = Processing \<and> current_progress tk < max_progress P
          then tk\<lparr>pc := TSleeping\<rparr> else tk\<lparr>pc := TDone\<rparr>)"

definition is_connected :: "(client_id \<rightharpoonup> websocket) \<Rightarrow> client_id \<Rightarrow> bool" where
  "is_connected conns cid = (case conns cid of None \<Rightarrow> False | Some ws \<Rightarrow> connected ws)"

text \<open>
  What wakes the ticker: the end of its sleep or of its send (which may have raised), or
  its cancellation, which raises CancelledError at the suspension point; that is not an
  \<^verbatim>\<open>Exception\<close>, so no handler of the ticker runs.
\<close>

datatype wake = Resume bool | Cancel

fun ticker_step ::
  "ticker_params \<Rightarrow> job_id \<Rightarrow> client_id \<Rightarrow> (client_id \<rightharpoonup> websocket) \<Rightarrow> wake
     \<Rightarrow> (job_id \<rightharpoonup> job) \<times> ticker \<Rightarrow> (job_id \<rightharpoonup> job) \<times> ticker" where
  "ticker_step P jid cid conns Cancel (jobs, tk) = (jobs, tk\<lparr>pc := TDone\<rparr>)"
| "ticker_step P jid cid conns (Resume send_ok) (jobs, tk) =
     (case pc tk of
        TStart \<Rightarrow> (jobs, loop_head P jobs jid tk)
      | TSleeping \<Rightarrow>
          (case jobs jid of
             None \<Rightarrow> (jobs, tk\<lparr>pc := TDone\<rparr>)
           | Some j \<Rightarrow>
               if status j = Processing
               then (let cp = current_progress tk + increment P;
                         jobs' = jobs(jid \<mapsto> j\<lparr>progress := cp\<rparr>);
                         tk' = tk\<lparr>current_progress := cp\<rparr>
                     in if is_connected conns cid then (jobs', tk'\<lparr>pc := TSending\<rparr>)
                        else (jobs', loop_head P jobs' jid tk'))
               else (jobs, tk\<lparr>pc := TDone\<rparr>))
      | TSending \<Rightarrow>
          if send_ok then (jobs, loop_head P jobs jid tk) else (jobs, tk\<lparr>pc := TDone\<rparr>)
      | TDone \<Rightarrow> (jobs, tk))"

text \<open>Any number of wake-ups, each under the connections of its moment.\<close>

fun ticker_run ::
  "ticker_params \<Rightarrow> job_id \<Rightarrow> client_id \<Rightarrow> ((client_id \<rightharpoonup> websocket) \<times> wake) list
     \<Rightarrow> (job_id \<rightharpoonup> job) \<times> ticker \<Rightarrow> (job_id \<rightharpoonup> job) \<times> ticker" where
  "ticker_run P jid cid [] st = st"
| "ticker_run P jid cid ((conns, w) # ws) st =
     ticker_run P jid cid ws (ticker_step P jid cid conns w st)"

definition example_job :: "job_status \<Rightarrow> job" where
  "example_job st =
     \<lparr>status = st, progress = 100, output_file = ''report.md'', start_time = 0,
      job_client = ''A'', streaming_enabled = False, job_error = None, end_time = None\<rparr>"

section \<open>Connections, tasks and the job runner of \<^verbatim>\<open>robust_server.py\<close>\<close>

text \<open>
  The process-wide state: the two registries, the completed store, the asyncio tasks (a
  store from task to state, since the task sets and the event loop share the task objects)
  and the files the runner writes. Paths are taken absolute already.
\<close>

datatype task_state = TaskPending | TaskCancelled | TaskFinished

text \<open>
  A file that exists can be read, giving its content, or makes \<^verbatim>\<open>open\<close> or
  \<^verbatim>\<open>read\<close> raise, with the message of the exception.
\<close>

datatype file_state = Readable string | Unreadable string

record server =
  active_connections :: "client_id \<rightharpoonup> websocket"
  websocket_tasks :: "client_id \<rightharpoonup> task_id set"
  research_jobs :: "job_id \<rightharpoonup> job"
  completed_research :: "(job_id \<times> completed_job) list"
  tasks :: "task_id \<rightharpoonup> task_state"
  files :: "string \<rightharpoonup> file_state"

definition abspath :: "string \<Rightarrow> string" where
  "abspath p = p"

definition init_server :: server where
  "init_server =
     \<lparr>active_connections = Map.empty, websocket_tasks = Map.empty, research_jobs = Map.empty,
      completed_research = [], tasks = Map.empty, files = Map.empty\<rparr>"

text \<open>
  \<^verbatim>\<open>websocket_endpoint\<close> up to the message loop: the client's task set is created
  when missing, the ping task joins it, and the socket becomes the client's channel.
\<close>

definition ws_accept :: "client_id \<Rightarrow> websocket \<Rightarrow> task_id \<Rightarrow> server \<Rightarrow> server" where
  "ws_accept cid ws ping_task s =
     (let owned = (case websocket_tasks s cid of None \<Rightarrow> {} | Some tset \<Rightarrow> tset)
      in s\<lparr>websocket_tasks := (websocket_tasks s)(cid \<mapsto> insert ping_task owned),
           tasks := (tasks s)(ping_task \<mapsto> TaskPending),
           active_connections := (active_connections s)(cid \<mapsto> ws)\<rparr>)"

text \<open>
  A research request over the socket:
  \<^verbatim>\<open>
  research_task = asyncio.create_task(run_research(prompt, client_id, output_file))
  websocket_tasks[client_id].add(research_task)
  \<close>
\<close>

definition spawn_research :: "client_id \<Rightarrow> task_id \<Rightarrow> server \<Rightarrow> server" where
  "spawn_research cid t s =
     s\<lparr>tasks := (tasks s)(t \<mapsto> TaskPending),
       websocket_tasks :=
         (case websocket_tasks s cid of
            None \<Rightarrow> websocket_tasks s
          | Some tset \<Rightarrow> (websocket_tasks s)(cid \<mapsto> insert t tset))\<rparr>"

text \<open>\<^verbatim>\<open>POST /research\<close> starts the same coroutine as a background task of no client.\<close>

definition spawn_background :: "task_id \<Rightarrow> server \<Rightarrow> server" where
  "spawn_background t s = s\<lparr>tasks := (tasks s)(t \<mapsto> TaskPending)\<rparr>"

text \<open>The arguments and the job id of one call of \<^verbatim>\<open>run_research\<close>.\<close>

record runner =
  r_task :: task_id
  r_job_id :: job_id
  r_prompt :: string
  r_client :: client_id
  r_output_file :: string

text \<open>
  A coroutine runs only while its task is pending. \<^verbatim>\<open>task.cancel()\<close> raises
  CancelledError at the task's suspension point; it is not an \<^verbatim>\<open>Exception\<close>
  (Python 3.8 and later), so neither \<^verbatim>\<open>except Exception\<close> of \<^verbatim>\<open>run_research\<close>
  runs and the coroutine ends there.

  The first step registers the job.
\<close>

definition run_research_begin :: "runner \<Rightarrow> real \<Rightarrow> server \<Rightarrow> server" where
  "run_research_begin r now s =
     (if tasks s (r_task r) = Some TaskPending
      then s\<lparr>research_jobs := (research_jobs s)(r_job_id r \<mapsto>
               \<lparr>status = Processing, progress = 0, output_file = r_output_file r,
                start_time = now, job_client = r_client r, streaming_enabled = False,
                job_error = None, end_time = None\<rparr>)\<rparr>
      else s)"

text \<open>
  The success step, from writing the file to the eviction, has no \<^verbatim>\<open>await\<close>:
  \<^verbatim>\<open>
  with open(output_file, "w", encoding="utf-8") as f:
      f.write(response_text)
  research_jobs[job_id]["progress"] = 100
  research_jobs[job_id]["status"] = "completed"
  research_jobs[job_id]["end_time"] = time.time()
  app.state.completed_research[job_id] = {
      "output_file": output_file, "output_path": os.path.abspath(output_file),
      "prompt": prompt, "client_id": client_id, "completion_time": time.time(),
      "content": response_text}
  \<close>
  followed by the eviction of \<open>store_completed_research\<close>.
\<close>

definition run_research_complete :: "runner \<Rightarrow> string \<Rightarrow> real \<Rightarrow> server \<Rightarrow> server" where
  "run_research_complete r response_text now s =
     (if tasks s (r_task r) = Some TaskPending
      then (let s1 = s\<lparr>files := (files s)(r_output_file r \<mapsto> Readable response_text)\<rparr>
            in (case research_jobs s (r_job_id r) of
                  None \<Rightarrow> s1
                | Some j \<Rightarrow>
                    s1\<lparr>research_jobs := (research_jobs s)(r_job_id r \<mapsto>
                          j\<lparr>progress := 100, status := Completed, end_time := Some now\<rparr>),
                       completed_research :=
                         store_completed_research (r_job_id r)
                           \<lparr>c_output_file = r_output_file r,
                            output_path = abspath (r_output_file r),
                            prompt = r_prompt r, c_client = r_client r,
                            completion_time = now, content = response_text\<rparr>
                           (completed_research s)\<rparr>))
      else s)"

text \<open>The failure step of the handlers: status, error and end time.\<close>

definition run_research_fail :: "runner \<Rightarrow> string \<Rightarrow> real \<Rightarrow> server \<Rightarrow> server" where
  "run_research_fail r msg now s =
     (if tasks s (r_task r) = Some TaskPending
      then (case research_jobs s (r_job_id r) of
              None \<Rightarrow> s
            | Some j \<Rightarrow>
                s\<lparr>research_jobs := (research_jobs s)(r_job_id r \<mapsto>
                     j\<lparr>status := Failed, job_error := Some msg, end_time := Some now\<rparr>)\<rparr>)
      else s)"

text \<open>
  The \<^verbatim>\<open>finally\<close> block of \<^verbatim>\<open>websocket_endpoint\<close>:
  \<^verbatim>\<open>
  if client_id in active_connections:
      del active_connections[client_id]
  # Cancel any tasks associated with this client
  if client_id in websocket_tasks:
      for task in websocket_tasks[client_id]:
          if not task.done():
              task.cancel()
      del websocket_tasks[client_id]
  \<close>
\<close>

definition ws_close :: "client_id \<Rightarrow> server \<Rightarrow> server" where
  "ws_close cid s =
     (let owned = (case websocket_tasks s cid of None \<Rightarrow> {} | Some tset \<Rightarrow> tset)
      in s\<lparr>active_connections := (active_connections s)(cid := None),
           tasks := (\<lambda>t. if t \<in> owned \<and> tasks s t = Some TaskPending
                         then Some TaskCancelled else tasks s t),
           websocket_tasks := (websocket_tasks s)(cid := None)\<rparr>)"

text \<open>What a lookup answers: the content, an error message, the job's state, or not found.\<close>

datatype lookup = ResultContent string | LookupError string | JobState job_status int | NotFound

text \<open>
  The result lookup, \<^verbatim>\<open>GET /research/results/{job_id}\<close>: a completed job is answered
  from its output file, with an error when the file is not there and with another when
  reading it raises; the inlined content of the record is not read.
  \<^verbatim>\<open>
  if job_id in app.state.completed_research:
      completed_job = app.state.completed_research[job_id]
      output_path = completed_job["output_path"]
      if os.path.exists(output_path):
          try:
              with open(output_path, "r", encoding="utf-8") as f:
                  content = f.read()
              return {"status": "success", ..., "content": content, ...}
          except Exception as e:
              return {"status": "error",
                      "message": f"Error reading research results: {str(e)}"}
      else:
          return {"status": "error", "message": f"Research output file not found"}
  \<close>
\<close>

definition read_result :: "file_state option \<Rightarrow> lookup" where
  "read_result f =
     (case f of
        None \<Rightarrow> LookupError ''Research output file not found''
      | Some (Readable file_content) \<Rightarrow> ResultContent file_content
      | Some (Unreadable e) \<Rightarrow> LookupError (''Error reading research results: '' @ e))"


definition get_research_results :: "server \<Rightarrow> job_id \<Rightarrow> lookup" where
  "get_research_results s jid =
     (case map_of (completed_research s) jid of
        Some completed \<Rightarrow> read_result (files s (output_path completed))
      | None \<Rightarrow>
          (case research_jobs s jid of
             Some j \<Rightarrow> JobState (status j) (progress j)
           | None \<Rightarrow> NotFound))"

text \<open>The \<^verbatim>\<open>get_result\<close> message of the socket: the same lookup after a check of the id.\<close>

definition ws_get_result :: "server \<Rightarrow> job_id \<Rightarrow> lookup" where
  "ws_get_result s jid =
     (if jid = [] then LookupError ''Job ID is required to retrieve results''
      else (case map_of (completed_research s) jid of
              Some completed \<Rightarrow> read_result (files s (output_path completed))
            | None \<Rightarrow>
                (case research_jobs s jid of
                   Some j \<Rightarrow> JobState (status j) (progress j)
                 | None \<Rightarrow> LookupError (''Research job with ID '' @ jid @ '' not found''))))"

text \<open>
  A run for evaluating the model: client A connects, requests a research job, the job is
  registered, A disconnects; then the runner's success step is offered, and A reconnects.
\<close>

definition runner_A :: runner where
  "runner_A = \<lparr>r_task = 2, r_job_id = ''job1'', r_prompt = ''why'', r_client = ''A'',
               r_output_file = ''report.md''\<rparr>"

definition job_started :: server where
  "job_started =
     run_research_begin runner_A 10
       (spawn_research ''A'' 2 (ws_accept ''A'' (WebSocket 1 True) 1 init_server))"

definition after_disconnect :: server where
  "after_disconnect =
     ws_accept ''A'' (WebSocket 2 True) 3
       (run_research_complete runner_A ''findings'' 20 (ws_close ''A'' job_started))"

text \<open>The same job run to completion while A stays connected; then its file is removed.\<close>

definition job_completed :: server where
  "job_completed = run_research_complete runner_A ''findings'' 20 job_started"

definition file_removed :: server where
  "file_removed = job_completed\<lparr>files := (files job_completed)(''report.md'' := None)\<rparr>"

text \<open>
  The state \<open>job_started\<close> with a full completed store, of 100 jobs completed at the times
  0 to 99; job1 then completes at time 500 in one run, and at time \<open>-1\<close> in another.
\<close>

definition full_store :: server where
  "full_store =
     job_started\<lparr>completed_research := map (\<lambda>n. (nth_job n, nth_research n)) [0..<100]\<rparr>"

definition completed_when_full :: server where
  "completed_when_full = run_research_complete runner_A ''findings'' 500 full_store"

definition completed_too_old :: server where
  "completed_too_old = run_research_complete runner_A ''findings'' (- 1) full_store"


section \<open>Properties of the normalizer\<close>

lemma record_ts_missing: "map_of r ''timestamp'' = None \<Longrightarrow> record_ts B r = Inr 0"
  by (simp add: record_ts_def dict_get_def)

lemma long_rows_skip: "record_ts B r = Inr 0 \<Longrightarrow> long_rows B (r # rs) = long_rows B rs"
  by simp

text \<open>
  What the inner loop appends when it does not raise: one Sample for each field, in order,
  whose key is not reserved and whose value \<open>float()\<close> accepts.
\<close>

lemma field_rows_exact:
  "field_rows B t r = Inr rows \<Longrightarrow>
     rows = concat (map (\<lambda>(k, v). if k \<in> set reserved_keys then []
                          else (case py_float B v of Inr f \<Rightarrow> [Sample t k f] | Inl e \<Rightarrow> [])) r)"
proof (induction r arbitrary: rows)
  case Nil
  then show ?case by simp
next
  case (Cons kv r)
  obtain k v where kv: "kv = (k, v)" by (cases kv)
  show ?case
  proof (cases "k \<in> set reserved_keys")
    case True
    with Cons kv show ?thesis by simp
  next
    case False
    show ?thesis
    proof (cases "py_float B v")
      case (Inl e)
      with Cons kv False show ?thesis by (cases "v = PNone") (auto split: if_splits)
    next
      case (Inr f)
      then have "v \<noteq> PNone" by auto
      with Cons kv False Inr show ?thesis by (auto split: sum.splits)
    qed
  qed
qed

lemma field_rows_returns:
  "\<forall>kv \<in> set r. py_float B (snd kv) \<noteq> Inl OverflowError \<Longrightarrow> \<exists>rows. field_rows B t r = Inr rows"
proof (induction r)
  case Nil
  show ?case by simp
next
  case (Cons kv r)
  obtain k v where kv: "kv = (k, v)" by (cases kv)
  from Cons obtain rows where rows: "field_rows B t r = Inr rows" by auto
  have nov: "py_float B v \<noteq> Inl OverflowError" using Cons.prems kv by simp
  have "py_float B v = Inl e \<Longrightarrow> e = ValueError \<or> e = TypeError" for e
    using nov by (cases v) (auto split: if_splits option.splits)
  with rows kv show ?case by (auto split: sum.splits)
qed

text \<open>
  C10. A wide record whose extracted timestamp is 0, whatever the stored value it was
  extracted from, is skipped exactly like a record that has no timestamp key: both give
  \<open>ts = 0\<close>, which \<^verbatim>\<open>if not ts: continue\<close> drops, so the record contributes no
  Sample, and a batch consisting of it alone normalizes to the empty sequence.
\<close>

theorem epoch_zero_record_skipped:
  assumes "record_ts B r = Inr 0"
    and "map_of r' ''timestamp'' = None"
    and "\<not> is_long_form r"
  shows "record_ts B r' = Inr 0
       \<and> long_rows B (r # rs) = long_rows B rs
       \<and> long_rows B (r # rs) = long_rows B (r' # rs)
       \<and> to_long_form B cast [r] = Inr []"
  using assms
  by (simp add: record_ts_missing to_long_form_def)

theorem epoch_zero_record_skipped_witness:
  "long_rows digits_only
     [[(''timestamp'', PInt 0), (''rpm'', PInt 800)],
      [(''timestamp'', PInt 2000), (''rpm'', PInt 900)]]
   = long_rows digits_only [[(''rpm'', PInt 800)], [(''timestamp'', PInt 2000), (''rpm'', PInt 900)]]
   \<and> long_rows digits_only [[(''timestamp'', PInt 2000), (''rpm'', PInt 900)]]
   = Inr [Sample 2000 ''rpm'' 900]
   \<and> to_long_form digits_only no_fast_path [[(''timestamp'', PInt 0), (''rpm'', PInt 800)]] = Inr []
   \<and> to_long_form digits_only no_fast_path
        [[(''timestamp'', PDict [(''$date'', PInt 0)]), (''rpm'', PInt 800)]] = Inr []
   \<and> to_long_form digits_only no_fast_path [[(''timestamp'', PFloat (1 / 2)), (''rpm'', PInt 800)]]
       = Inr []
   \<and> to_long_form digits_only no_fast_path [[(''timestamp'', PStr ''0''), (''rpm'', PInt 800)]]
       = Inr []
   \<and> to_long_form digits_only no_fast_path [[(''timestamp'', PBool False), (''rpm'', PInt 800)]]
       = Inr []"
proof -
  let ?rest = "[[(''timestamp'', PInt 2000), (''rpm'', PInt 900)]]"
  let ?none = "[(''rpm'', PInt 800)]"
  have z: "record_ts digits_only [(''timestamp'', PInt 0), (''rpm'', PInt 800)] = Inr 0"
    "record_ts digits_only [(''timestamp'', PDict [(''$date'', PInt 0)]), (''rpm'', PInt 800)] = Inr 0"
    "record_ts digits_only [(''timestamp'', PFloat (1 / 2)), (''rpm'', PInt 800)] = Inr 0"
    "record_ts digits_only [(''timestamp'', PStr ''0''), (''rpm'', PInt 800)] = Inr 0"
    "record_ts digits_only [(''timestamp'', PBool False), (''rpm'', PInt 800)] = Inr 0"
    by (simp_all add: record_ts_def dict_get_def digits_only_def)
  have n: "map_of ?none ''timestamp'' = None" by simp
  have l: "\<not> is_long_form [(''timestamp'', v), (''rpm'', PInt 800)]" for v
    by (simp add: is_long_form_def)
  have rest: "long_rows digits_only ?rest = Inr [Sample 2000 ''rpm'' 900]"
    by (simp add: record_ts_def dict_get_def reserved_keys_def)
  from epoch_zero_record_skipped [OF z(1) n l, of ?rest no_fast_path]
    epoch_zero_record_skipped [OF z(2) n l, of ?rest no_fast_path]
    epoch_zero_record_skipped [OF z(3) n l, of ?rest no_fast_path]
    epoch_zero_record_skipped [OF z(4) n l, of ?rest no_fast_path]
    epoch_zero_record_skipped [OF z(5) n l, of ?rest no_fast_path]
    rest
  show ?thesis by simp
qed

text \<open>
  C6. The skip of a record without a valid timestamp, and the skip of a single field,
  evaluated where the code departs from the claim. A record whose timestamp is null makes
  \<^verbatim>\<open>int(None)\<close> raise TypeError out of \<^verbatim>\<open>to_long_form\<close>, where a record with no
  timestamp key is skipped; and a field holding an integer beyond the range of a double
  makes \<^verbatim>\<open>float()\<close> raise OverflowError, which the handler does not name, where a
  non-numeric string is dropped and its sibling fields are kept.
\<close>

theorem null_timestamp_raises:
  "to_long_form digits_only no_fast_path [[(''timestamp'', PNone), (''rpm'', PInt 800)]]
     = Inl TypeError
   \<and> to_long_form digits_only no_fast_path [[(''rpm'', PInt 800)]] = Inr []
   \<and> to_long_form digits_only no_fast_path
        [[(''timestamp'', PInt 1000), (''odometer'', PInt (10 ^ 400)), (''rpm'', PInt 800)]]
     = Inl OverflowError
   \<and> to_long_form digits_only no_fast_path
        [[(''timestamp'', PInt 1000), (''vin'', PStr ''abc''), (''speed'', PNone),
          (''rpm'', PInt 800), (''load'', PStr ''45'')]]
     = Inr [Sample 1000 ''rpm'' 800, Sample 1000 ''load'' 45]"
  by (simp add: record_ts_def dict_get_def to_long_form_def is_long_form_def reserved_keys_def
      digits_only_def)

section \<open>Properties of the pivot and the downsample\<close>

lemma set_first_seen: "set (first_seen xs) = set xs"
  by (simp add: first_seen_def)

lemma distinct_first_seen: "distinct (first_seen xs)"
  by (simp add: first_seen_def)

lemma filter_eq_single:
  "distinct xs \<Longrightarrow> x \<in> set xs \<Longrightarrow> filter (\<lambda>y. y = x) xs = [x]"
  by (induction xs) (auto simp: filter_empty_conv)

lemma in_bucket_iff: "(s * 1000 \<le> t \<and> t \<le> s * 1000 + 999) \<longleftrightarrow> t div 1000 = (s::int)"
proof -
  have d: "t = 1000 * (t div 1000) + t mod 1000" by simp
  have m: "0 \<le> t mod 1000" "t mod 1000 < 1000" by simp_all
  show ?thesis using d m by arith
qed

lemma pivot_rows_at:
  assumes "t \<in> ts ` set samples"
  shows "filter (\<lambda>x. rts x = t) (wrows (pivot samples)) = [WRow t (pivot_cell samples t)]"
proof -
  let ?f = "\<lambda>t. WRow t (pivot_cell samples t)"
  let ?tss = "first_seen (map ts samples)"
  have "filter (\<lambda>x. rts x = t) (map ?f ?tss) = map ?f (filter (\<lambda>y. y = t) ?tss)"
    by (simp add: filter_map comp_def)
  also have "filter (\<lambda>y. y = t) ?tss = [t]"
    using assms by (intro filter_eq_single) (simp_all add: distinct_first_seen set_first_seen)
  finally show ?thesis
    by (simp add: pivot_def filter_sort)
qed

lemma downsample_rows_at:
  assumes "r \<in> set (wrows w)"
  shows "filter (\<lambda>x. sec x = sec r) (wrows (downsample w)) =
           [WRow (sec r * 1000) (\<lambda>p. col_mean (map (\<lambda>x. cells x p) (filter (\<lambda>x. sec x = sec r) (wrows w))))]"
proof -
  let ?rows = "wrows w"
  let ?f = "\<lambda>s. WRow (s * 1000) (\<lambda>p. col_mean (map (\<lambda>x. cells x p) (filter (\<lambda>x. sec x = s) ?rows)))"
  let ?ss = "first_seen (map sec ?rows)"
  have ne: "length ?rows > 0" using assms by (cases ?rows) auto
  have m: "map with_ts_from_sec (group_by_sec_mean ?rows) = map ?f ?ss"
    by (simp add: group_by_sec_mean_def with_ts_from_sec_def Let_def)
  have "filter (\<lambda>x. sec x = sec r) (map ?f ?ss) = map ?f (filter (\<lambda>y. y = sec r) ?ss)"
    by (simp add: filter_map comp_def sec_def)
  also have "filter (\<lambda>y. y = sec r) ?ss = [sec r]"
    using assms by (intro filter_eq_single) (simp_all add: distinct_first_seen set_first_seen)
  finally show ?thesis
    using ne by (simp add: downsample_def m filter_sort)
qed


text \<open>
  C1, as the code has it. For every wide table and every row \<open>r\<close> of it, the downsampled
  table has exactly one row for the bucket \<open>[T, T + 999]\<close> that holds \<open>r\<close>, each of its
  cells is the mean of the non-null cells of the input rows of that bucket, and its time is
  the bucket boundary \<open>T\<close>: the mean of the times that \<^verbatim>\<open>group_by("sec").mean()\<close>
  computes is overwritten by \<^verbatim>\<open>sec * 1000\<close>.
\<close>

theorem downsample_bucket_row:
  assumes "r \<in> set (wrows w)"
    and "T = rts r div 1000 * 1000"
  shows "\<exists>out. filter (\<lambda>x. T \<le> rts x \<and> rts x \<le> T + 999) (wrows (downsample w)) = [out]
             \<and> rts out = T
             \<and> (\<forall>p. cells out p =
                   col_mean (map (\<lambda>x. cells x p)
                              (filter (\<lambda>x. T \<le> rts x \<and> rts x \<le> T + 999) (wrows w))))"
proof -
  have b: "(T \<le> rts x \<and> rts x \<le> T + 999) \<longleftrightarrow> sec x = sec r" for x
    unfolding assms(2) sec_def using in_bucket_iff [of "rts r div 1000" "rts x"] by simp
  show ?thesis
    unfolding b using downsample_rows_at [OF assms(1)] by (simp add: assms(2) sec_def)
qed

theorem downsample_bucket_row_witness:
  "WRow 1999 (pivot_cell example_samples 1999) \<in> set (wrows (pivot example_samples))
   \<and> (\<exists>out. filter (\<lambda>x. 1000 \<le> rts x \<and> rts x \<le> 1999) (wrows (downsample (pivot example_samples))) = [out]
          \<and> rts out = 1000 \<and> cells out ''rpm'' = Some 2925)"
proof -
  have m: "WRow 1999 (pivot_cell example_samples 1999) \<in> set (wrows (pivot example_samples))"
    by (simp add: pivot_def example_samples_def first_seen_def)
  have rows: "filter (\<lambda>x. 1000 \<le> rts x \<and> rts x \<le> 1999) (wrows (pivot example_samples))
      = [WRow 1000 (pivot_cell example_samples 1000), WRow 1999 (pivot_cell example_samples 1999)]"
    by (simp add: pivot_def example_samples_def first_seen_def)
  have c: "pivot_cell example_samples 1000 ''rpm'' = Some 850"
     "pivot_cell example_samples 1999 ''rpm'' = Some 5000"
    by (simp_all add: pivot_cell_def example_samples_def mean_vals_def)
  from downsample_bucket_row [OF m, of 1000] obtain out where
    o: "filter (\<lambda>x. 1000 \<le> rts x \<and> rts x \<le> 1999) (wrows (downsample (pivot example_samples))) = [out]"
      "rts out = 1000"
      "\<And>p. cells out p = col_mean (map (\<lambda>x. cells x p)
                 (filter (\<lambda>x. 1000 \<le> rts x \<and> rts x \<le> 1999) (wrows (pivot example_samples))))"
    by auto
  have "cells out ''rpm'' = Some 2925"
    unfolding o(3) rows by (simp add: c col_mean_def mean_vals_def)
  with m o(1,2) show ?thesis by blast
qed

text \<open>
  The claim as stated fails at the spec's own example: the rows at 1000 and 1999 collapse
  into one row whose time is 1000, not the mean 1499.5.
\<close>

theorem downsample_time_is_bucket_start:
  "map rts (wrows (pivot example_samples)) = [1000, 1999]
   \<and> map gts (group_by_sec_mean (wrows (pivot example_samples))) = [Some (2999 / 2)]
   \<and> map rts (wrows (downsample (pivot example_samples))) = [1000]
   \<and> real_of_int 1000 \<noteq> 2999 / 2"
  by (simp add: downsample_def pivot_def example_samples_def first_seen_def group_by_sec_mean_def
      sec_def with_ts_from_sec_def mean_vals_def)

section \<open>Properties of the KPI summary\<close>

lemma collect_keys: "collect es = Inr k \<Longrightarrow> map fst k = map fst es"
  by (induction es arbitrary: k rule: collect.induct) (auto split: sum.splits)

lemma collect_ok:
  "list_all (\<lambda>e. \<exists>v. snd e = Inr v) es \<Longrightarrow> \<exists>k. collect es = Inr k"
  by (induction es rule: collect.induct) auto

lemma mask_any_lt_900:
  "mask_any (lt_900 col) \<longleftrightarrow> (\<exists>v \<in> set (non_null col). v < 900)"
  by (induction col rule: non_null.induct) (auto simp: mask_any_def lt_900_def)

lemma max_of_Some: "xs \<noteq> [] \<Longrightarrow> \<exists>m. max_of xs = Some m"
  by (cases xs) auto

lemma min_of_Some: "xs \<noteq> [] \<Longrightarrow> \<exists>m. min_of xs = Some m"
  by (cases xs) auto

lemma guarded_ok:
  assumes "non_null col \<noteq> []"
  shows "\<exists>v. guarded col (col_mean col) = Inr v" "\<exists>v. guarded col (col_max col) = Inr v"
    "\<exists>v. guarded col (col_min col) = Inr v"
    "\<exists>v. guarded col (sub_opt (col_max col) (col_min col)) = Inr v"
  using assms max_of_Some [OF assms] min_of_Some [OF assms]
  by (auto simp: guarded_def float_of_def col_mean_def mean_vals_def col_max_def col_min_def sub_opt_def)

lemma base_keys: "map fst (base_entries w) = [''rows'', ''start'', ''end'', ''signals'', ''duration_seconds'']"
  by (simp add: base_entries_def Let_def)

lemma rpm_keys:
  "map fst (rpm_entries std w) =
     (if ''rpm'' \<in> set (columns w)
      then [''rpm_mean'', ''rpm_max'', ''rpm_min'']
           @ (if mask_any (lt_900 (column w ''rpm'')) then [''idleRPMStd'', ''idleRPMMean''] else [])
      else [])"
  by (simp add: rpm_entries_def Let_def)

lemma temp_keys:
  "map fst (temp_entries w) =
     (if ''engineTemp'' \<in> set (columns w) then [''coolantRiseC'', ''coolantMax'', ''coolantMin''] else [])"
  by (simp add: temp_entries_def Let_def)

lemma speed_keys:
  "map fst (speed_entries w) =
     (if ''speed'' \<in> set (columns w) then [''speed_mean'', ''speed_max''] else [])"
  by (simp add: speed_entries_def Let_def)

lemma fuel_keys:
  "map fst (fuel_entries w) =
     (if ''shortTermFuelTrim'' \<in> set (columns w) then [''stft_mean'', ''stft_max''] else [])
     @ (if ''longTermFuelTrim'' \<in> set (columns w) then [''ltft_mean'', ''ltft_max''] else [])"
  by (simp add: fuel_entries_def Let_def)

lemma meta_keys:
  "map fst (meta_entries m) = (if m \<noteq> [] then [''sessionName'', ''dtcCodes'', ''vehicleId''] else [])"
  by (simp add: meta_entries_def)

lemma summarize_keys:
  assumes "summarize std w m = Inr k"
  shows "map fst k =
     [''rows'', ''start'', ''end'', ''signals'', ''duration_seconds'']
     @ (if ''rpm'' \<in> set (columns w)
        then [''rpm_mean'', ''rpm_max'', ''rpm_min'']
             @ (if mask_any (lt_900 (column w ''rpm'')) then [''idleRPMStd'', ''idleRPMMean''] else [])
        else [])
     @ (if ''engineTemp'' \<in> set (columns w) then [''coolantRiseC'', ''coolantMax'', ''coolantMin''] else [])
     @ (if ''speed'' \<in> set (columns w) then [''speed_mean'', ''speed_max''] else [])
     @ (if ''shortTermFuelTrim'' \<in> set (columns w) then [''stft_mean'', ''stft_max''] else [])
     @ (if ''longTermFuelTrim'' \<in> set (columns w) then [''ltft_mean'', ''ltft_max''] else [])
     @ (if m \<noteq> [] then [''sessionName'', ''dtcCodes'', ''vehicleId''] else [])"
  using collect_keys [OF assms [unfolded summarize_def]]
  by (simp only: map_append base_keys rpm_keys temp_keys speed_keys fuel_keys meta_keys append_assoc)


lemma col_filter_idle_non_null:
  "mask_any (lt_900 col) \<Longrightarrow> non_null (col_filter col (lt_900 col)) \<noteq> []"
  by (induction col rule: non_null.induct)
     (auto simp: mask_any_def lt_900_def col_filter_def)

lemma rpm_entries_ok:
  assumes "''rpm'' \<in> set (columns w) \<longrightarrow> non_null (column w ''rpm'') \<noteq> []"
    and "mask_any (lt_900 (column w ''rpm'')) \<longrightarrow> std (col_filter (column w ''rpm'') (lt_900 (column w ''rpm''))) \<noteq> None"
  shows "list_all (\<lambda>e. \<exists>v. snd e = Inr v) (rpm_entries std w)"
  using assms guarded_ok [of "column w ''rpm''"]
    col_filter_idle_non_null [of "column w ''rpm''"]
  by (auto simp: rpm_entries_def Let_def float_of_def col_mean_def mean_vals_def)

lemma temp_entries_ok:
  assumes "''engineTemp'' \<in> set (columns w) \<longrightarrow> non_null (column w ''engineTemp'') \<noteq> []"
  shows "list_all (\<lambda>e. \<exists>v. snd e = Inr v) (temp_entries w)"
  using assms guarded_ok [of "column w ''engineTemp''"]
  by (auto simp: temp_entries_def Let_def)

lemma speed_entries_ok:
  assumes "''speed'' \<in> set (columns w) \<longrightarrow> non_null (column w ''speed'') \<noteq> []"
  shows "list_all (\<lambda>e. \<exists>v. snd e = Inr v) (speed_entries w)"
  using assms guarded_ok [of "column w ''speed''"]
  by (auto simp: speed_entries_def Let_def)

lemma fuel_entries_ok:
  assumes "''shortTermFuelTrim'' \<in> set (columns w) \<longrightarrow> non_null (column w ''shortTermFuelTrim'') \<noteq> []"
   and "''longTermFuelTrim'' \<in> set (columns w) \<longrightarrow> non_null (column w ''longTermFuelTrim'') \<noteq> []"
  shows "list_all (\<lambda>e. \<exists>v. snd e = Inr v) (fuel_entries w)"
  using assms guarded_ok [of "column w ''shortTermFuelTrim''"] guarded_ok [of "column w ''longTermFuelTrim''"]
  by (auto simp: fuel_entries_def Let_def)

lemma base_entries_ok: "list_all (\<lambda>e. \<exists>v. snd e = Inr v) (base_entries w)"
  by (simp add: base_entries_def Let_def)

lemma meta_entries_ok: "list_all (\<lambda>e. \<exists>v. snd e = Inr v) (meta_entries m)"
  by (simp add: meta_entries_def)

lemma summarize_ok:
  assumes "\<forall>p \<in> set (columns w). non_null (column w p) \<noteq> []"
    and "mask_any (lt_900 (column w ''rpm'')) \<longrightarrow> std (col_filter (column w ''rpm'') (lt_900 (column w ''rpm''))) \<noteq> None"
  shows "\<exists>k. summarize std w m = Inr k"
  unfolding summarize_def
  apply (rule collect_ok)
  apply (simp only: list_all_append)
  apply (intro conjI base_entries_ok meta_entries_ok rpm_entries_ok temp_entries_ok speed_entries_ok fuel_entries_ok)
  using assms by auto

lemma non_null_nonempty: "non_null xs \<noteq> [] \<longleftrightarrow> (\<exists>v. Some v \<in> set xs)"
  by (induction xs rule: non_null.induct) auto

lemma filter_single_mem: "filter P xs = [x] \<Longrightarrow> x \<in> set xs"
proof -
  assume "filter P xs = [x]"
  then have "x \<in> set (filter P xs)" by simp
  then show ?thesis by simp
qed

lemma pipeline_columns_non_null:
  assumes "p \<in> set (columns (downsample (pivot samples)))"
  shows "non_null (column (downsample (pivot samples)) p) \<noteq> []"
proof -
  let ?w = "pivot samples"
  have "p \<in> set (columns ?w)"
    using assms by (auto simp: downsample_def split: if_splits)
  then obtain s where s: "s \<in> set samples" "pid s = p"
    by (auto simp: pivot_def set_first_seen)
  let ?r = "WRow (ts s) (pivot_cell samples (ts s))"
  have "filter (\<lambda>x. rts x = ts s) (wrows ?w) = [?r]"
    using s by (intro pivot_rows_at) auto
  then have r_in: "?r \<in> set (wrows ?w)"
    by (rule filter_single_mem)
  have "map val (filter (\<lambda>x. ts x = ts s \<and> pid x = p) samples) \<noteq> []"
    using s by (auto simp: filter_empty_conv)
  then obtain c where c: "cells ?r p = Some c"
    by (auto simp: pivot_cell_def mean_vals_def)
  let ?g = "filter (\<lambda>x. sec x = sec ?r) (wrows ?w)"
  let ?out = "WRow (sec ?r * 1000) (\<lambda>p. col_mean (map (\<lambda>x. cells x p) ?g))"
  have "filter (\<lambda>x. sec x = sec ?r) (wrows (downsample ?w)) = [?out]"
    using downsample_rows_at [OF r_in] .
  then have out_in: "?out \<in> set (wrows (downsample ?w))"
    by (rule filter_single_mem)
  have "?r \<in> set ?g" using r_in by simp
  then have "Some c \<in> set (map (\<lambda>x. cells x p) ?g)"
    using c by (metis (mono_tags, lifting) image_eqI list.set_map)
  then have "non_null (map (\<lambda>x. cells x p) ?g) \<noteq> []"
    unfolding non_null_nonempty by blast
  then obtain m where "cells ?out p = Some m"
    by (auto simp: col_mean_def mean_vals_def)
  then have "Some m \<in> set (column (downsample ?w) p)"
    using out_in unfolding column_def by (metis (mono_tags, lifting) image_eqI list.set_map)
  then show ?thesis unfolding non_null_nonempty by blast
qed

lemma example_table:
  "columns (downsample (pivot example_samples)) = [''rpm'']"
  "column (downsample (pivot example_samples)) ''rpm'' = [Some 2925]"
  by (simp_all add: downsample_def pivot_def example_samples_def first_seen_def group_by_sec_mean_def
      sec_def with_ts_from_sec_def col_mean_def mean_vals_def pivot_cell_def Let_def column_def)

text \<open>
  Every table the pipeline builds meets the hypothesis of the summary's existence below:
  each of its columns has a non-null cell (\<open>pipeline_columns_non_null\<close>).
\<close>

text \<open>
  C7. Whenever the summary is produced, it has the keys \<^verbatim>\<open>rpm_mean\<close>, \<^verbatim>\<open>rpm_max\<close>
  and \<^verbatim>\<open>rpm_min\<close> exactly when the table has an \<^verbatim>\<open>rpm\<close> column, no key starting
  with \<^verbatim>\<open>rpm_\<close> when it has none, and the keys \<^verbatim>\<open>idleRPMStd\<close> and
  \<^verbatim>\<open>idleRPMMean\<close> exactly when the column is present and some row has rpm below 900.
  The summary is produced for every table whose columns each have a non-null cell,
  provided the standard deviation of the idle rows, when there are any, is not null.
\<close>

theorem kpi_rpm_conditionality:
  "(\<forall>k. summarize std w m = Inr k \<longrightarrow>
       (''rpm_mean'' \<in> fst ` set k \<longleftrightarrow> ''rpm'' \<in> set (columns w))
     \<and> (''rpm_max'' \<in> fst ` set k \<longleftrightarrow> ''rpm'' \<in> set (columns w))
     \<and> (''rpm_min'' \<in> fst ` set k \<longleftrightarrow> ''rpm'' \<in> set (columns w))
     \<and> (''rpm'' \<notin> set (columns w) \<longrightarrow> (\<forall>key \<in> fst ` set k. take 4 key \<noteq> ''rpm_''))
     \<and> (''idleRPMStd'' \<in> fst ` set k \<longleftrightarrow>
          ''rpm'' \<in> set (columns w) \<and> (\<exists>v \<in> set (non_null (column w ''rpm'')). v < 900))
     \<and> (''idleRPMMean'' \<in> fst ` set k \<longleftrightarrow>
          ''rpm'' \<in> set (columns w) \<and> (\<exists>v \<in> set (non_null (column w ''rpm'')). v < 900)))
   \<and> ((\<forall>p \<in> set (columns w). non_null (column w p) \<noteq> [])
       \<and> ((\<exists>v \<in> set (non_null (column w ''rpm'')). v < 900) \<longrightarrow>
            std (col_filter (column w ''rpm'') (lt_900 (column w ''rpm''))) \<noteq> None)
       \<longrightarrow> (\<exists>k. summarize std w m = Inr k))"
proof -
  have keys: "(''rpm_mean'' \<in> fst ` set k \<longleftrightarrow> ''rpm'' \<in> set (columns w))
     \<and> (''rpm_max'' \<in> fst ` set k \<longleftrightarrow> ''rpm'' \<in> set (columns w))
     \<and> (''rpm_min'' \<in> fst ` set k \<longleftrightarrow> ''rpm'' \<in> set (columns w))
     \<and> (''rpm'' \<notin> set (columns w) \<longrightarrow> (\<forall>key \<in> fst ` set k. take 4 key \<noteq> ''rpm_''))
     \<and> (''idleRPMStd'' \<in> fst ` set k \<longleftrightarrow>
          ''rpm'' \<in> set (columns w) \<and> (\<exists>v \<in> set (non_null (column w ''rpm'')). v < 900))
     \<and> (''idleRPMMean'' \<in> fst ` set k \<longleftrightarrow>
          ''rpm'' \<in> set (columns w) \<and> (\<exists>v \<in> set (non_null (column w ''rpm'')). v < 900))"
    if "summarize std w m = Inr k" for k
  proof -
    have s: "fst ` set k = set (map fst k)" by simp
    show ?thesis
      unfolding s summarize_keys [OF that] mask_any_lt_900
      by auto
  qed
  have ex: "\<exists>k. summarize std w m = Inr k"
    if "\<forall>p \<in> set (columns w). non_null (column w p) \<noteq> []"
      and "(\<exists>v \<in> set (non_null (column w ''rpm'')). v < 900) \<longrightarrow>
            std (col_filter (column w ''rpm'') (lt_900 (column w ''rpm''))) \<noteq> None"
    using that summarize_ok [of w std m] by (simp add: mask_any_lt_900)
  from keys ex show ?thesis by blast
qed


theorem kpi_rpm_conditionality_witness:
  "\<exists>k. summarize (\<lambda>c. None) (downsample (pivot example_samples)) [] = Inr k
      \<and> ''rpm_mean'' \<in> fst ` set k \<and> ''rpm_max'' \<in> fst ` set k \<and> ''rpm_min'' \<in> fst ` set k
      \<and> ''idleRPMStd'' \<notin> fst ` set k \<and> ''idleRPMMean'' \<notin> fst ` set k"
  using kpi_rpm_conditionality [of "\<lambda>c. None" "downsample (pivot example_samples)" "[]"]
  by (simp add: example_table) blast

section \<open>Properties of the final-response extraction\<close>

text \<open>
  The extraction proper returns a value for every shape, and so does the final response
  of \<^verbatim>\<open>run_analysis\<close>. The final response of \<^verbatim>\<open>run_research\<close> raises exactly
  when no chunk was streamed and the extracted value has no length, which only a value
  taken from a dictionary with a known key can be.
\<close>

lemma extract_response_cases:
  "(\<exists>v. extract_response str responses = Inr v)
   \<and> (\<forall>d v. responses = PDict d \<and> map_of d ''response'' = Some v
         \<longrightarrow> extract_response str responses = Inr v)
   \<and> (\<forall>d v. responses = PDict d \<and> map_of d ''response'' = None \<and> map_of d ''text'' = Some v
         \<longrightarrow> extract_response str responses = Inr v)
   \<and> (\<forall>d v. responses = PDict d \<and> map_of d ''response'' = None \<and> map_of d ''text'' = None
           \<and> map_of d ''content'' = Some v
         \<longrightarrow> extract_response str responses = Inr v)
   \<and> (\<forall>rs. responses = PList rs
         \<longrightarrow> extract_response str responses = Inr (PStr (join blank_line (map str rs))))
   \<and> ((\<forall>rs. responses \<noteq> PList rs)
       \<and> (\<forall>d. responses = PDict d \<longrightarrow>
              map_of d ''response'' = None \<and> map_of d ''text'' = None \<and> map_of d ''content'' = None)
         \<longrightarrow> extract_response str responses = Inr (PStr (str responses)))"
proof -
  have k: "k \<in> fst ` set d \<longleftrightarrow> map_of d k \<noteq> None" for k and d :: pydict
    by (simp add: map_of_eq_None_iff)
  show ?thesis
    by (cases responses) (auto simp: k dict_item_def)
qed

lemma analysis_final_response_total:
  "\<exists>v. analysis_final_response str full_content responses = Inr v"
  using extract_response_cases [of str responses]
  by (auto simp: analysis_final_response_def)

lemma research_final_response_raises:
  "research_final_response str full_content responses = Inl e \<longleftrightarrow>
     full_content = [] \<and> e = TypeError
     \<and> (\<exists>v. extract_response str responses = Inr v \<and> py_len v = Inl TypeError)"
proof -
  obtain v where v: "extract_response str responses = Inr v"
    using extract_response_cases [of str responses] by blast
  have "py_len v = Inl e' \<Longrightarrow> e' = TypeError" for e'
    by (cases v) auto
  with v show ?thesis
    by (auto simp: research_final_response_def split: sum.splits)
qed

text \<open>
  C8. The final-response extraction evaluated where the code departs from the claim: with
  no streamed chunk, \<^verbatim>\<open>run_research\<close> raises TypeError on a dictionary whose known
  key holds a value without a length, such as \<^verbatim>\<open>{"response": None}\<close> or
  \<^verbatim>\<open>{"content": 3}\<close>, where \<^verbatim>\<open>run_analysis\<close> yields that value; on a string
  value, a dictionary without a known key and a scalar it returns as the claim says.
\<close>

theorem research_extraction_raises:
  "research_final_response str_stub [] (PDict [(''response'', PNone)]) = Inl TypeError
   \<and> research_final_response str_stub [] (PDict [(''content'', PInt 3)]) = Inl TypeError
   \<and> analysis_final_response str_stub [] (PDict [(''response'', PNone)]) = Inr PNone
   \<and> analysis_final_response str_stub [] (PDict [(''content'', PInt 3)]) = Inr (PInt 3)
   \<and> research_final_response str_stub [] (PDict [(''text'', PStr ''report'')]) = Inr (PStr ''report'')
   \<and> research_final_response str_stub [] (PDict [(''status'', PInt 3)]) = Inr (PStr ''<value>'')
   \<and> research_final_response str_stub [] (PInt 3) = Inr (PStr ''<value>'')"
  by (simp add: research_final_response_def analysis_final_response_def dict_item_def str_stub_def)

section \<open>Retention of the completed stores\<close>

text \<open>
  The research store keeps the policy (\<open>research_store_retention\<close>): from a store of at
  most 100 entries with distinct keys, recording a job leaves at most 100 entries; when
  the assignment makes 101, exactly one entry is deleted, one of least completion time.
\<close>

lemma dict_set_map_fst:
  "map fst (dict_set k v d) = (if k \<in> fst ` set d then map fst d else map fst d @ [k])"
  by (induction d) (auto simp: dict_set_def)

lemma dict_set_keys: "fst ` set (dict_set k v d) = insert k (fst ` set d)"
proof -
  have "fst ` set (dict_set k v d) = set (map fst (dict_set k v d))" by simp
  also have "\<dots> = insert k (fst ` set d)"
    unfolding dict_set_map_fst by auto
  finally show ?thesis .
qed

lemma dict_set_distinct: "distinct (map fst d) \<Longrightarrow> distinct (map fst (dict_set k v d))"
  by (auto simp: dict_set_map_fst)

lemma dict_set_length:
  "length (dict_set k v d) = (if k \<in> fst ` set d then length d else Suc (length d))"
  by (simp add: dict_set_def)

lemma first_min_mem: "first_min key m xs \<in> set (m # xs)"
  by (induction xs arbitrary: m) (auto split: if_splits)

lemma first_min_le: "e \<in> set (m # xs) \<Longrightarrow> key (first_min key m xs) \<le> key e"
proof (induction xs arbitrary: m e)
  case Nil
  then show ?case by simp
next
  case (Cons x xs)
  have le_m: "key (first_min key m' xs) \<le> key m'" for m'
    using Cons.IH [where m = m' and e = m'] by simp
  show ?case
  proof (cases "key x < key m")
    case True
    with Cons.prems Cons.IH [where m = x and e = e] le_m [of x] show ?thesis by auto
  next
    case False
    with Cons.prems Cons.IH [where m = m and e = e] le_m [of m] show ?thesis by auto
  qed
qed

lemma dict_del_length:
  "distinct (map fst d) \<Longrightarrow> k \<in> fst ` set d \<Longrightarrow> Suc (length (dict_del k d)) = length d"
proof (induction d)
  case Nil
  then show ?case by simp
next
  case (Cons kv d)
  show ?case
  proof (cases "fst kv = k")
    case True
    with Cons.prems have "k \<notin> fst ` set d" by auto
    then have "filter (\<lambda>kv. fst kv \<noteq> k) d = d"
      by (auto simp: filter_id_conv)
    with True show ?thesis by (simp add: dict_del_def)
  next
    case False
    with Cons show ?thesis by (auto simp: dict_del_def)
  qed
qed

lemma dict_del_keys: "fst ` set (dict_del k d) = fst ` set d - {k}"
  by (auto simp: dict_del_def)

lemma dict_del_distinct: "distinct (map fst d) \<Longrightarrow> distinct (map fst (dict_del k d))"
  by (simp add: dict_del_def distinct_map_filter)

lemma research_store_retention:
  assumes "distinct (map fst d)" and "length d \<le> 100"
  shows "length (store_completed_research k v d) \<le> 100"
    and "distinct (map fst (store_completed_research k v d))"
    and "length (dict_set k v d) > 100 \<Longrightarrow>
           \<exists>old \<in> set (dict_set k v d).
             store_completed_research k v d = dict_del (fst old) (dict_set k v d)
           \<and> Suc (length (store_completed_research k v d)) = length (dict_set k v d)
           \<and> (\<forall>e \<in> set (dict_set k v d). completion_time (snd old) \<le> completion_time (snd e))"
    and "length (dict_set k v d) \<le> 100 \<Longrightarrow> store_completed_research k v d = dict_set k v d"
proof -
  let ?cr = "dict_set k v d"
  have dcr: "distinct (map fst ?cr)" using assms(1) by (rule dict_set_distinct)
  have lcr: "length ?cr \<le> 101" using assms(2) by (simp add: dict_set_length)
  show small: "length ?cr \<le> 100 \<Longrightarrow> store_completed_research k v d = ?cr"
    by (simp add: store_completed_research_def Let_def)
  have big: "\<exists>old \<in> set ?cr.
             store_completed_research k v d = dict_del (fst old) ?cr
           \<and> Suc (length (store_completed_research k v d)) = length ?cr
           \<and> (\<forall>e \<in> set ?cr. completion_time (snd old) \<le> completion_time (snd e))"
    if gt: "length ?cr > 100"
  proof -
    from gt obtain x xs where cr: "?cr = x # xs" by (cases ?cr) auto
    let ?old = "first_min (\<lambda>kv. completion_time (snd kv)) x xs"
    have mem: "?old \<in> set ?cr" unfolding cr by (rule first_min_mem)
    have eq: "store_completed_research k v d = dict_del (fst ?old) ?cr"
      using gt by (simp add: store_completed_research_def Let_def cr)
    have len: "Suc (length (dict_del (fst ?old) ?cr)) = length ?cr"
      using dcr mem by (intro dict_del_length) auto
    have least: "\<forall>e \<in> set ?cr. completion_time (snd ?old) \<le> completion_time (snd e)"
      unfolding cr using first_min_le [of _ x xs "\<lambda>kv. completion_time (snd kv)"] by blast
    from mem eq len least show ?thesis by (metis (no_types, lifting))
  qed
  then show "length ?cr > 100 \<Longrightarrow>
           \<exists>old \<in> set ?cr.
             store_completed_research k v d = dict_del (fst old) ?cr
           \<and> Suc (length (store_completed_research k v d)) = length ?cr
           \<and> (\<forall>e \<in> set ?cr. completion_time (snd old) \<le> completion_time (snd e))" .
  show "length (store_completed_research k v d) \<le> 100"
  proof (cases "length ?cr > 100")
    case True
    from big [OF True] lcr show ?thesis by auto
  next
    case False
    with small show ?thesis by simp
  qed
  show "distinct (map fst (store_completed_research k v d))"
  proof (cases "length ?cr > 100")
    case True
    from big [OF True] dcr show ?thesis by (auto simp: dict_del_distinct)
  next
    case False
    with small dcr show ?thesis by simp
  qed
qed


lemma nth_job_inj: "nth_job m = nth_job n \<longleftrightarrow> m = n"
proof
  assume "nth_job m = nth_job n"
  then have "length (nth_job m) = length (nth_job n)" by simp
  then show "m = n" by (simp add: nth_job_def)
qed simp

lemma research_store_keys:
  "fst ` set (store_completed_research k v d) \<subseteq> insert k (fst ` set d)"
proof (cases "length (dict_set k v d) > 100")
  case True
  then obtain x xs where cr: "dict_set k v d = x # xs" by (cases "dict_set k v d") auto
  have "store_completed_research k v d =
          dict_del (fst (first_min (\<lambda>kv. completion_time (snd kv)) x xs)) (dict_set k v d)"
    using True by (simp add: store_completed_research_def Let_def cr)
  then show ?thesis
    by (simp only: dict_del_keys dict_set_keys) blast
next
  case False
  then have "store_completed_research k v d = dict_set k v d"
    by (simp add: store_completed_research_def Let_def)
  then show ?thesis by (simp add: dict_set_keys)
qed

lemma research_store_length_new:
  assumes "distinct (map fst d)" and "length d \<le> 100" and "k \<notin> fst ` set d"
  shows "length (store_completed_research k v d) = min (Suc (length d)) 100"
proof (cases "length (dict_set k v d) > 100")
  case True
  from research_store_retention(3) [OF assms(1,2) True]
  have "Suc (length (store_completed_research k v d)) = length (dict_set k v d)" by blast
  with True assms show ?thesis by (simp add: dict_set_length)
next
  case False
  then have "store_completed_research k v d = dict_set k v d"
    by (simp add: store_completed_research_def Let_def)
  with False assms show ?thesis by (simp add: dict_set_length)
qed

lemma analysis_fold_length:
  assumes "distinct ns" and "\<forall>n \<in> set ns. nth_job n \<notin> fst ` set d"
  shows "length (fold (\<lambda>n. store_completed_analysis (nth_job n) (nth_analysis n)) ns d)
           = length d + length ns"
  using assms
proof (induction ns arbitrary: d)
  case Nil
  then show ?case by simp
next
  case (Cons n ns)
  let ?d = "store_completed_analysis (nth_job n) (nth_analysis n) d"
  have keys: "fst ` set ?d = insert (nth_job n) (fst ` set d)"
    by (simp add: store_completed_analysis_def dict_set_keys)
  have len: "length ?d = Suc (length d)"
    using Cons.prems by (simp add: store_completed_analysis_def dict_set_length)
  have "\<forall>m \<in> set ns. nth_job m \<notin> fst ` set ?d"
    using Cons.prems unfolding keys by (auto simp: nth_job_inj)
  with Cons.IH [of ?d] Cons.prems len show ?case by simp
qed

lemma research_fold_length:
  assumes "distinct ns" and "\<forall>n \<in> set ns. nth_job n \<notin> fst ` set d"
    and "distinct (map fst d)" and "length d \<le> 100"
  shows "length (fold (\<lambda>n. store_completed_research (nth_job n) (nth_research n)) ns d)
           = min (length d + length ns) 100"
  using assms
proof (induction ns arbitrary: d)
  case Nil
  then show ?case by simp
next
  case (Cons n ns)
  let ?d = "store_completed_research (nth_job n) (nth_research n) d"
  have new: "nth_job n \<notin> fst ` set d" using Cons.prems by simp
  have len: "length ?d = min (Suc (length d)) 100"
    using Cons.prems new by (intro research_store_length_new) auto
  have d': "distinct (map fst ?d)" "length ?d \<le> 100"
    using research_store_retention(1,2) [of d "nth_job n" "nth_research n"] Cons.prems by auto
  have "nth_job m \<notin> fst ` set ?d" if m: "m \<in> set ns" for m
  proof
    assume "nth_job m \<in> fst ` set ?d"
    with research_store_keys [of "nth_job n" "nth_research n" d]
    have "nth_job m = nth_job n \<or> nth_job m \<in> fst ` set d" by blast
    moreover have "m \<noteq> n" using m Cons.prems(1) by auto
    moreover have "nth_job m \<notin> fst ` set d" using m Cons.prems(2) by simp
    ultimately show False by (simp add: nth_job_inj)
  qed
  then have "\<forall>m \<in> set ns. nth_job m \<notin> fst ` set ?d" by blast
  with Cons.IH [of ?d] Cons.prems d' have
    "length (fold (\<lambda>n. store_completed_research (nth_job n) (nth_research n)) ns ?d)
       = min (length ?d + length ns) 100" by simp
  then show ?case unfolding len by simp
qed

text \<open>
  C9. The cap of 100 entries with eviction of the oldest holds for the store of
  \<^verbatim>\<open>run_research\<close> only. Evaluated at 101 completed jobs with distinct ids: the
  store of \<^verbatim>\<open>run_analysis\<close> holds 101 entries, the store of \<^verbatim>\<open>run_research\<close>
  holds 100.
\<close>

theorem analysis_store_unbounded:
  "length (fold (\<lambda>n. store_completed_analysis (nth_job n) (nth_analysis n)) [0..<101] []) = 101
   \<and> length (fold (\<lambda>n. store_completed_research (nth_job n) (nth_research n)) [0..<101] []) = 100"
  using analysis_fold_length [of "[0..<101]" "[]"] research_fold_length [of "[0..<101]" "[]"]
  by simp

section \<open>Properties of the progress ticker\<close>

lemma ticker_step_terminal:
  assumes "\<forall>j. jobs jid = Some j \<longrightarrow> status j \<noteq> Processing"
  shows "fst (ticker_step P jid cid conns w (jobs, tk)) = jobs"
  using assms
  by (cases w; cases "pc tk"; cases "jobs jid") (auto simp: Let_def)

lemma ticker_step_write:
  "fst (ticker_step P jid cid conns w (jobs, tk)) = jobs
   \<or> (\<exists>j. jobs jid = Some j \<and> status j = Processing
          \<and> fst (ticker_step P jid cid conns w (jobs, tk))
              = jobs(jid \<mapsto> j\<lparr>progress := current_progress tk + increment P\<rparr>))"
  by (cases w; cases "pc tk"; cases "jobs jid") (auto simp: Let_def)

lemma ticker_run_terminal:
  assumes "\<forall>j. jobs jid = Some j \<longrightarrow> status j \<noteq> Processing"
  shows "fst (ticker_run P jid cid ws (jobs, tk)) = jobs"
  using assms
proof (induction ws arbitrary: tk)
  case Nil
  show ?case by simp
next
  case (Cons cw ws)
  obtain conns w where cw: "cw = (conns, w)" by (cases cw)
  obtain tk' where st: "ticker_step P jid cid conns w (jobs, tk) = (jobs, tk')"
    using ticker_step_terminal [of jobs jid P cid conns w tk] Cons.prems
    by (cases "ticker_step P jid cid conns w (jobs, tk)") auto
  show ?case using Cons.IH [of tk'] Cons.prems by (simp add: cw st)
qed

text \<open>
  C4. Once the job's status is Completed or Failed, no sequence of wake-ups of its ticker,
  whatever the connections and the outcomes of its sends, changes the job registry: neither
  progress nor status is written. Every write of a ticker step happens in a step that
  found the status Processing at its start, and it sets the progress field only: the
  re-check and the write are in the same step, with no suspension point between them.
\<close>

theorem ticker_never_writes_after_terminal:
  "((\<forall>j. jobs jid = Some j \<longrightarrow> status j = Completed \<or> status j = Failed)
      \<longrightarrow> fst (ticker_run P jid cid ws (jobs, tk)) = jobs)
   \<and> (fst (ticker_step P jid cid conns w (jobs, tk)) \<noteq> jobs
      \<longrightarrow> (\<exists>j. jobs jid = Some j \<and> status j = Processing
             \<and> fst (ticker_step P jid cid conns w (jobs, tk))
                 = jobs(jid \<mapsto> j\<lparr>progress := current_progress tk + increment P\<rparr>)))"
proof -
  have a: "fst (ticker_run P jid cid ws (jobs, tk)) = jobs"
    if "\<forall>j. jobs jid = Some j \<longrightarrow> status j = Completed \<or> status j = Failed"
    using that by (intro ticker_run_terminal) auto
  from a ticker_step_write [of P jid cid conns w jobs tk] show ?thesis by blast
qed


theorem ticker_never_writes_after_terminal_witness:
  "fst (ticker_run analysis_ticker ''job1'' ''A''
          [(Map.empty, Resume True), (Map.empty, Resume True), (Map.empty, Cancel)]
          ([''job1'' \<mapsto> example_job Failed], \<lparr>pc = TSleeping, current_progress = 15\<rparr>))
     = [''job1'' \<mapsto> example_job Failed]
   \<and> fst (ticker_step research_ticker ''job1'' ''A'' Map.empty (Resume True)
            ([''job1'' \<mapsto> example_job Processing], \<lparr>pc = TSleeping, current_progress = 43\<rparr>))
     = [''job1'' \<mapsto> (example_job Processing)\<lparr>progress := 46\<rparr>]"
proof -
  let ?done = "[''job1'' \<mapsto> example_job Failed]"
  let ?live = "[''job1'' \<mapsto> example_job Processing]"
  let ?tk = "\<lparr>pc = TSleeping, current_progress = 43\<rparr>"
  let ?step = "ticker_step research_ticker ''job1'' ''A'' Map.empty (Resume True) (?live, ?tk)"
  have t: "\<forall>j. ?done ''job1'' = Some j \<longrightarrow> status j = Completed \<or> status j = Failed"
    by (simp add: example_job_def)
  have "fst ?step ''job1'' \<noteq> ?live ''job1''"
    by (simp add: example_job_def research_ticker_def Let_def)
  then have w: "fst ?step \<noteq> ?live" by metis
  from ticker_never_writes_after_terminal
    [of ?done "''job1''" analysis_ticker "''A''"
        "[(Map.empty, Resume True), (Map.empty, Resume True), (Map.empty, Cancel)]"
        "\<lparr>pc = TSleeping, current_progress = 15\<rparr>"] t
  have a: "fst (ticker_run analysis_ticker ''job1'' ''A''
          [(Map.empty, Resume True), (Map.empty, Resume True), (Map.empty, Cancel)]
          (?done, \<lparr>pc = TSleeping, current_progress = 15\<rparr>)) = ?done"
    by blast
  from ticker_never_writes_after_terminal
    [of ?live "''job1''" research_ticker "''A''" "[]" ?tk Map.empty "Resume True"] w
  have "\<exists>j. ?live ''job1'' = Some j \<and> status j = Processing
          \<and> fst ?step = ?live(''job1'' \<mapsto> j\<lparr>progress := current_progress ?tk + increment research_ticker\<rparr>)"
    by blast
  then have b: "fst ?step = [''job1'' \<mapsto> (example_job Processing)\<lparr>progress := 46\<rparr>]"
    by (auto simp: research_ticker_def)
  from a b show ?thesis by blast
qed

section \<open>Properties of the completed record and the result lookup\<close>

lemma map_of_replace:
  "k \<in> fst ` set d \<Longrightarrow> map_of (map (\<lambda>kv. if fst kv = k then (k, v) else kv) d) k = Some v"
  by (induction d) auto

lemma map_of_dict_set: "map_of (dict_set k v d) k = Some v"
proof (cases "k \<in> fst ` set d")
  case True
  then show ?thesis by (simp add: dict_set_def map_of_replace)
next
  case False
  then have "map_of d k = None" by (simp add: map_of_eq_None_iff)
  with False show ?thesis by (simp add: dict_set_def map_add_def)
qed

lemma job_started_facts:
  "tasks job_started 2 = Some TaskPending"
  "map_option status (research_jobs job_started ''job1'') = Some Processing"
  "completed_research job_started = []"
  "websocket_tasks job_started ''A'' = Some {1, 2}"
  by (simp_all add: job_started_def run_research_begin_def spawn_research_def ws_accept_def
      init_server_def runner_A_def Let_def insert_commute)

lemma first_min_snoc:
  "first_min key m (xs @ [z]) =
     (if key z < key (first_min key m xs) then z else first_min key m xs)"
  by (induction xs arbitrary: m) auto

lemma map_of_dict_del: "k \<noteq> k' \<Longrightarrow> map_of (dict_del k' d) k = map_of d k"
  by (induction d) (auto simp: dict_del_def)

lemma map_of_dict_del_same: "map_of (dict_del k d) k = None"
  by (simp add: dict_del_def map_of_eq_None_iff image_iff)

lemma store_cases:
  "store_completed_research k v d =
     (let cr = dict_set k v d
      in if length cr > 100
         then dict_del (fst (first_min (\<lambda>kv. completion_time (snd kv)) (hd cr) (tl cr))) cr
         else cr)"
proof (cases "dict_set k v d")
  case Nil
  then show ?thesis by (simp add: store_completed_research_def Let_def)
next
  case (Cons x xs)
  then show ?thesis by (simp add: store_completed_research_def Let_def)
qed

lemma newest_not_evicted:
  assumes "k \<notin> fst ` set d" and "e \<in> set d" and "completion_time (snd e) \<le> completion_time v"
  shows "fst (first_min (\<lambda>kv. completion_time (snd kv)) (hd (dict_set k v d)) (tl (dict_set k v d))) \<noteq> k"
proof -
  let ?key = "\<lambda>kv. completion_time (snd kv)"
  from assms(2) obtain m xs where d: "d = m # xs" by (cases d) auto
  have cr: "dict_set k v d = m # (xs @ [(k, v)])"
    using assms(1) by (simp add: dict_set_def d)
  have "?key (first_min ?key m xs) \<le> ?key e"
    using first_min_le [of e m xs ?key] assms(2) d by simp
  then have "\<not> ?key (k, v) < ?key (first_min ?key m xs)"
    using assms(3) by simp
  then have "first_min ?key m (xs @ [(k, v)]) = first_min ?key m xs"
    by (simp add: first_min_snoc)
  moreover have "first_min ?key m xs \<in> set d"
    using first_min_mem [of ?key m xs] d by simp
  ultimately show ?thesis
    using assms(1) cr by (auto simp: image_iff)
qed

lemma oldest_is_new:
  assumes "k \<notin> fst ` set d" and "d \<noteq> []"
    and "\<forall>e \<in> set d. completion_time v < completion_time (snd e)"
  shows "fst (first_min (\<lambda>kv. completion_time (snd kv)) (hd (dict_set k v d)) (tl (dict_set k v d))) = k"
proof -
  let ?key = "\<lambda>kv. completion_time (snd kv)"
  from assms(2) obtain m xs where d: "d = m # xs" by (cases d) auto
  have cr: "dict_set k v d = m # (xs @ [(k, v)])"
    using assms(1) by (simp add: dict_set_def d)
  have "first_min ?key m xs \<in> set d"
    using first_min_mem [of ?key m xs] d by simp
  then have "?key (k, v) < ?key (first_min ?key m xs)"
    using assms(3) by simp
  then show ?thesis by (simp add: cr first_min_snoc)
qed

lemma full_store_facts:
  "tasks full_store 2 = Some TaskPending"
  "map_option status (research_jobs full_store ''job1'') = Some Processing"
  "length (completed_research full_store) = 100"
  "''job1'' \<notin> fst ` set (completed_research full_store)"
  "completed_research full_store \<noteq> []"
  "\<forall>e \<in> set (completed_research full_store). 0 \<le> completion_time (snd e)"
  by (auto simp: full_store_def job_started_facts nth_job_def nth_research_def)

text \<open>
  C3, as the code has it. A research job that completes is recorded with its result text
  inlined, unless the store then exceeds 100 entries and the new record is itself the
  oldest, when it is the one evicted; it is not the oldest when its job id is new and some
  stored record completed no later. Both lookups, \<^verbatim>\<open>GET /research/results/{job_id}\<close>
  and the \<^verbatim>\<open>get_result\<close> message, answer a recorded job from its output file: the
  file's content while it exists and can be read, the error "Research output file not
  found" once it is gone, and the error "Error reading research results" when reading
  raises.
\<close>

theorem completed_record_and_lookup:
  assumes "tasks s (r_task r) = Some TaskPending"
    and "research_jobs s (r_job_id r) = Some j"
    and "r_job_id r \<noteq> []"
    and "entry = \<lparr>c_output_file = r_output_file r, output_path = abspath (r_output_file r),
                  prompt = r_prompt r, c_client = r_client r, completion_time = now,
                  content = response_text\<rparr>"
    and "cr = dict_set (r_job_id r) entry (completed_research s)"
    and "oldest = fst (first_min (\<lambda>kv. completion_time (snd kv)) (hd cr) (tl cr))"
    and "s' = run_research_complete r response_text now s"
  shows "(length cr \<le> 100 \<or> oldest \<noteq> r_job_id r \<longrightarrow>
            map_of (completed_research s') (r_job_id r) = Some entry
          \<and> content entry = response_text
          \<and> get_research_results s' (r_job_id r) = ResultContent response_text
          \<and> ws_get_result s' (r_job_id r) = ResultContent response_text
          \<and> (\<forall>fs. get_research_results (s'\<lparr>files := fs\<rparr>) (r_job_id r)
                  = read_result (fs (abspath (r_output_file r))))
          \<and> (\<forall>fs. ws_get_result (s'\<lparr>files := fs\<rparr>) (r_job_id r)
                  = read_result (fs (abspath (r_output_file r)))))
       \<and> (r_job_id r \<notin> fst ` set (completed_research s)
            \<and> (\<exists>e \<in> set (completed_research s). completion_time (snd e) \<le> now)
          \<longrightarrow> oldest \<noteq> r_job_id r)
       \<and> (length cr > 100 \<and> oldest = r_job_id r \<longrightarrow>
            map_of (completed_research s') (r_job_id r) = None
          \<and> get_research_results s' (r_job_id r) = JobState Completed 100)
       \<and> read_result None = LookupError ''Research output file not found''
       \<and> (\<forall>c. read_result (Some (Readable c)) = ResultContent c)
       \<and> (\<forall>e. read_result (Some (Unreadable e))
               = LookupError (''Error reading research results: '' @ e))"
proof -
  let ?jid = "r_job_id r"
  have st0: "completed_research s' = store_completed_research ?jid entry (completed_research s)"
    using assms(1,2) unfolding assms(7) assms(4)
    by (simp add: run_research_complete_def Let_def)
  have st: "completed_research s' =
      (if length cr > 100 then dict_del oldest cr else cr)"
    unfolding st0 store_cases assms(6) assms(5) by (simp add: Let_def)
  have fl: "files s' (abspath (r_output_file r)) = Some (Readable response_text)"
    using assms(1,2) unfolding assms(7)
    by (simp add: run_research_complete_def Let_def abspath_def)
  have jb: "research_jobs s' ?jid = Some (j\<lparr>progress := 100, status := Completed, end_time := Some now\<rparr>)"
    using assms(1,2) unfolding assms(7)
    by (simp add: run_research_complete_def Let_def)
  have mo: "map_of cr ?jid = Some entry"
    unfolding assms(5) by (rule map_of_dict_set)
  have op: "output_path entry = abspath (r_output_file r)" "content entry = response_text"
    unfolding assms(4) by simp_all
  have kept: "map_of (completed_research s') ?jid = Some entry"
    if "length cr \<le> 100 \<or> oldest \<noteq> ?jid"
    using that mo by (auto simp: st map_of_dict_del)
  have a: "map_of (completed_research s') ?jid = Some entry
          \<and> content entry = response_text
          \<and> get_research_results s' ?jid = ResultContent response_text
          \<and> ws_get_result s' ?jid = ResultContent response_text
          \<and> (\<forall>fs. get_research_results (s'\<lparr>files := fs\<rparr>) ?jid
                  = read_result (fs (abspath (r_output_file r))))
          \<and> (\<forall>fs. ws_get_result (s'\<lparr>files := fs\<rparr>) ?jid
                  = read_result (fs (abspath (r_output_file r))))"
    if h: "length cr \<le> 100 \<or> oldest \<noteq> ?jid"
    using kept [OF h] op fl assms(3)
    by (simp add: get_research_results_def ws_get_result_def read_result_def)
  have b: "oldest \<noteq> ?jid"
    if "?jid \<notin> fst ` set (completed_research s)"
      and "\<exists>e \<in> set (completed_research s). completion_time (snd e) \<le> now"
  proof -
    from that(2) obtain e where e: "e \<in> set (completed_research s)" "completion_time (snd e) \<le> now"
      by blast
    have "completion_time (snd e) \<le> completion_time entry" using e(2) by (simp add: assms(4))
    from newest_not_evicted [OF that(1) e(1) this] show ?thesis
      unfolding assms(6) assms(5) .
  qed
  have c: "map_of (completed_research s') ?jid = None
          \<and> get_research_results s' ?jid = JobState Completed 100"
    if "length cr > 100 \<and> oldest = ?jid"
    using that jb by (simp add: st map_of_dict_del_same get_research_results_def)
  have d: "read_result None = LookupError ''Research output file not found''"
    "\<forall>c. read_result (Some (Readable c)) = ResultContent c"
    "\<forall>e. read_result (Some (Unreadable e)) = LookupError (''Error reading research results: '' @ e)"
    by (simp_all add: read_result_def)
  from a b c d show ?thesis by blast
qed


theorem completed_record_and_lookup_witness:
  "map_option content (map_of (completed_research job_completed) ''job1'') = Some ''findings''
   \<and> get_research_results job_completed ''job1'' = ResultContent ''findings''
   \<and> ws_get_result job_completed ''job1'' = ResultContent ''findings''
   \<and> get_research_results (job_completed\<lparr>files := Map.empty\<rparr>) ''job1''
       = LookupError ''Research output file not found''
   \<and> get_research_results (job_completed\<lparr>files := [''report.md'' \<mapsto> Unreadable ''denied'']\<rparr>) ''job1''
       = LookupError ''Error reading research results: denied''
   \<and> map_option content (map_of (completed_research completed_when_full) ''job1'') = Some ''findings''
   \<and> get_research_results completed_when_full ''job1'' = ResultContent ''findings''
   \<and> map_of (completed_research completed_too_old) ''job1'' = None
   \<and> get_research_results completed_too_old ''job1'' = JobState Completed 100"
proof -
  let ?entry = "\<lambda>now. \<lparr>c_output_file = r_output_file runner_A,
       output_path = abspath (r_output_file runner_A), prompt = r_prompt runner_A,
       c_client = r_client runner_A, completion_time = now, content = ''findings''\<rparr>"
  let ?cr = "\<lambda>s now. dict_set (r_job_id runner_A) (?entry now) (completed_research s)"
  let ?oldest = "\<lambda>s now. fst (first_min (\<lambda>kv. completion_time (snd kv)) (hd (?cr s now)) (tl (?cr s now)))"
  have id: "r_job_id runner_A = ''job1''" "r_task runner_A = 2" "r_output_file runner_A = ''report.md''"
    by (simp_all add: runner_A_def)
  have n: "r_job_id runner_A \<noteq> []" by (simp add: id)
  \<comment> \<open>the store is not full\<close>
  obtain j where j: "research_jobs job_started (r_job_id runner_A) = Some j"
    using job_started_facts(2) by (auto simp: id)
  have t: "tasks job_started (r_task runner_A) = Some TaskPending"
    using job_started_facts(1) by (simp add: id)
  have small: "length (?cr job_started 20) \<le> 100"
    by (simp add: job_started_facts(3) dict_set_def)
  note a = completed_record_and_lookup [where r = runner_A and s = job_started
      and response_text = "''findings''" and now = 20, OF t j n refl refl refl refl]
  have a': "map_of (completed_research job_completed) ''job1'' = Some (?entry 20)
     \<and> get_research_results job_completed ''job1'' = ResultContent ''findings''
     \<and> ws_get_result job_completed ''job1'' = ResultContent ''findings''
     \<and> (\<forall>fs. get_research_results (job_completed\<lparr>files := fs\<rparr>) ''job1''
            = read_result (fs (abspath ''report.md'')))"
    using a small by (simp add: job_completed_def id)
  \<comment> \<open>the store is full and the new record is the newest\<close>
  obtain j' where j': "research_jobs full_store (r_job_id runner_A) = Some j'"
    using full_store_facts(2) by (auto simp: id)
  have t': "tasks full_store (r_task runner_A) = Some TaskPending"
    using full_store_facts(1) by (simp add: id)
  have fresh: "r_job_id runner_A \<notin> fst ` set (completed_research full_store)"
    using full_store_facts(4) by (simp add: id)
  obtain e where e: "e \<in> set (completed_research full_store)"
    using full_store_facts(5) by (cases "completed_research full_store") auto
  have e0: "0 \<le> completion_time (snd e)" using full_store_facts(6) e by blast
  have e500: "\<exists>e \<in> set (completed_research full_store). completion_time (snd e) \<le> 500"
  proof -
    have "(nth_job 0, nth_research 0) \<in> set (completed_research full_store)"
      by (simp add: full_store_def image_iff) (rule bexI [of _ 0], simp_all)
    moreover have "completion_time (snd (nth_job 0, nth_research 0)) \<le> 500"
      by (simp add: nth_research_def)
    ultimately show ?thesis by blast
  qed
  note b = completed_record_and_lookup [where r = runner_A and s = full_store
      and response_text = "''findings''" and now = 500, OF t' j' n refl refl refl refl]
  have b': "map_of (completed_research completed_when_full) ''job1'' = Some (?entry 500)
     \<and> get_research_results completed_when_full ''job1'' = ResultContent ''findings''"
    using b fresh e500 by (simp add: completed_when_full_def id)
  \<comment> \<open>the store is full and the new record is the oldest\<close>
  have len: "length (?cr full_store (- 1)) > 100"
    using fresh full_store_facts(3) by (simp add: dict_set_length)
  have old: "?oldest full_store (- 1) = r_job_id runner_A"
  proof (rule oldest_is_new [OF fresh full_store_facts(5)])
    show "\<forall>e \<in> set (completed_research full_store).
            completion_time (?entry (- 1)) < completion_time (snd e)"
      using full_store_facts(6) by fastforce
  qed
  note c = completed_record_and_lookup [where r = runner_A and s = full_store
      and response_text = "''findings''" and now = "- 1", OF t' j' n refl refl refl refl]
  have c': "map_of (completed_research completed_too_old) ''job1'' = None
     \<and> get_research_results completed_too_old ''job1'' = JobState Completed 100"
    using c len old by (simp add: completed_too_old_def id)
  from a' b' c' show ?thesis
    by (simp add: abspath_def read_result_def)
qed

text \<open>
  The claim as stated fails once the output file is removed: the record still holds the
  content, and both lookups answer with the error.
\<close>

theorem lookup_fails_without_file:
  "map_option content (map_of (completed_research file_removed) ''job1'') = Some ''findings''
   \<and> get_research_results file_removed ''job1'' = LookupError ''Research output file not found''
   \<and> ws_get_result file_removed ''job1'' = LookupError ''Research output file not found''"
  by (simp add: file_removed_def job_completed_def job_started_def run_research_complete_def
      run_research_begin_def spawn_research_def ws_accept_def init_server_def runner_A_def Let_def
      store_completed_research_def dict_set_def get_research_results_def ws_get_result_def
      abspath_def read_result_def)

section \<open>Properties of the disconnect\<close>

lemma ws_close_frame:
  "research_jobs (ws_close cid s) = research_jobs s"
  "completed_research (ws_close cid s) = completed_research s"
  "files (ws_close cid s) = files s"
  "active_connections (ws_close cid s) cid = None"
  "websocket_tasks (ws_close cid s) cid = None"
  by (simp_all add: ws_close_def Let_def)

lemma ws_close_lookup: "get_research_results (ws_close cid s) jid = get_research_results s jid"
  unfolding get_research_results_def ws_close_frame ..

lemma ws_accept_frame:
  "research_jobs (ws_accept cid ws p s) = research_jobs s"
  "completed_research (ws_accept cid ws p s) = completed_research s"
  "files (ws_accept cid ws p s) = files s"
  by (simp_all add: ws_accept_def Let_def)

lemma reconnect_lookup:
  "get_research_results (ws_accept cid ws p (ws_close cid s)) jid = get_research_results s jid"
  unfolding get_research_results_def ws_accept_frame ws_close_frame ..

lemma ws_close_cancels:
  "websocket_tasks s cid = Some tset \<Longrightarrow> t \<in> tset \<Longrightarrow> tasks s t = Some TaskPending
     \<Longrightarrow> tasks (ws_close cid s) t = Some TaskCancelled"
  by (simp add: ws_close_def Let_def)

lemma ws_close_cancels_spawned:
  "websocket_tasks s cid = Some tset
     \<Longrightarrow> tasks (ws_close cid (spawn_research cid t s)) t = Some TaskCancelled"
  by (rule ws_close_cancels [where tset = "insert t tset"]) (simp_all add: spawn_research_def)

lemma cancelled_runner_stops:
  "tasks s (r_task r) = Some TaskCancelled
     \<Longrightarrow> run_research_complete r txt now s = s \<and> run_research_fail r msg now s = s"
  by (simp add: run_research_complete_def run_research_fail_def)

text \<open>
  C2, as the code has it. On transport close the client's channel mapping and task set are
  removed and every pending task the client owns is cancelled, the job runner of a request
  made over the socket included, since it joins the client's task set. The job registry,
  the completed store and the files are untouched, so the lookup answers after the close,
  and after a reconnect under the same client id, as it did before. A cancelled runner
  takes neither its success step nor its failure step.
\<close>

theorem ws_close_cancels_owned_tasks:
  "active_connections (ws_close cid s) cid = None
   \<and> websocket_tasks (ws_close cid s) cid = None
   \<and> (\<forall>tset t. websocket_tasks s cid = Some tset \<and> t \<in> tset \<and> tasks s t = Some TaskPending
         \<longrightarrow> tasks (ws_close cid s) t = Some TaskCancelled)
   \<and> (\<forall>tset t. websocket_tasks s cid = Some tset
         \<longrightarrow> tasks (ws_close cid (spawn_research cid t s)) t = Some TaskCancelled)
   \<and> research_jobs (ws_close cid s) = research_jobs s
   \<and> completed_research (ws_close cid s) = completed_research s
   \<and> files (ws_close cid s) = files s
   \<and> (\<forall>jid. get_research_results (ws_close cid s) jid = get_research_results s jid)
   \<and> (\<forall>jid ws p. get_research_results (ws_accept cid ws p (ws_close cid s)) jid
                    = get_research_results s jid)
   \<and> (\<forall>r txt msg now. tasks (ws_close cid s) (r_task r) = Some TaskCancelled
         \<longrightarrow> run_research_complete r txt now (ws_close cid s) = ws_close cid s
           \<and> run_research_fail r msg now (ws_close cid s) = ws_close cid s)"
  using ws_close_frame [of cid s] ws_close_lookup [of cid s] ws_close_cancels [of s cid]
    ws_close_cancels_spawned [of s cid] cancelled_runner_stops [of "ws_close cid s"]
    reconnect_lookup [of cid _ _ s]
  by blast

theorem ws_close_cancels_owned_tasks_witness:
  "active_connections (ws_close ''A'' job_started) ''A'' = None
   \<and> websocket_tasks (ws_close ''A'' job_started) ''A'' = None
   \<and> tasks (ws_close ''A'' job_started) 2 = Some TaskCancelled
   \<and> research_jobs (ws_close ''A'' job_started) = research_jobs job_started
   \<and> run_research_complete runner_A ''findings'' 20 (ws_close ''A'' job_started)
       = ws_close ''A'' job_started"
proof -
  have c: "tasks (ws_close ''A'' job_started) (r_task runner_A) = Some TaskCancelled"
    using ws_close_cancels_owned_tasks [of "''A''" job_started] job_started_facts(1,4)
    by (simp add: runner_A_def)
  with ws_close_cancels_owned_tasks [of "''A''" job_started] show ?thesis
    by (simp add: runner_A_def)
qed

text \<open>
  The claim as stated fails for a job still running at the close: its runner is cancelled,
  the job stays Processing, no completed record appears, and after the reconnect the
  lookup reports a processing job instead of a result.
\<close>

theorem disconnected_job_stays_processing:
  "map_option status (research_jobs after_disconnect ''job1'') = Some Processing
   \<and> completed_research after_disconnect = []
   \<and> get_research_results after_disconnect ''job1'' = JobState Processing 0
   \<and> ws_get_result after_disconnect ''job1'' = JobState Processing 0"
  by (simp add: after_disconnect_def job_started_def run_research_complete_def
      run_research_begin_def spawn_research_def ws_accept_def ws_close_def init_server_def
      runner_A_def Let_def get_research_results_def ws_get_result_def)

end
